theory Spec2Isabelle
  imports Main "HOL-Library.Char_ord" "HOL-Library.List_Lexorder"
begin

section \<open>Python string primitives used by BrewFile.py\<close>

text \<open>
  Strings are modelled as ASCII character lists. \<open>py_space\<close> is the set of ASCII
  characters that \<^verbatim>\<open>str.split()\<close> and \<^verbatim>\<open>str.strip()\<close> treat as white space;
  \<open>py_split\<close> is \<^verbatim>\<open>s.split()\<close> (runs of white space separate the tokens, no empty
  token is produced), \<open>py_join\<close> is \<^verbatim>\<open>sep.join(xs)\<close>, \<open>py_strip\<close> is \<^verbatim>\<open>s.strip()\<close>,
  \<open>strip_chars\<close> is \<^verbatim>\<open>s.strip(chars)\<close>, \<open>isdigit\<close> is \<^verbatim>\<open>s.isdigit()\<close> and
  \<open>contains\<close> is the substring test \<^verbatim>\<open>s.find(sub) != -1\<close>.
\<close>

definition py_space :: "char \<Rightarrow> bool" where
  "py_space c =
     (c \<in> set [CHR 0x09, CHR 0x0A, CHR 0x0B, CHR 0x0C, CHR 0x0D,
                CHR 0x1C, CHR 0x1D, CHR 0x1E, CHR 0x1F, CHR 0x20])"

fun split_from :: "string \<Rightarrow> string \<Rightarrow> string list" where
  "split_from cur [] = (if cur = [] then [] else [cur])"
| "split_from cur (c # cs) =
     (if py_space c then (if cur = [] then split_from [] cs else cur # split_from [] cs)
      else split_from (cur @ [c]) cs)"

definition py_split :: "string \<Rightarrow> string list" where
  "py_split s = split_from [] s"

fun py_join :: "string \<Rightarrow> string list \<Rightarrow> string" where
  "py_join sep [] = []"
| "py_join sep [x] = x"
| "py_join sep (x # y # ys) = x @ sep @ py_join sep (y # ys)"

definition py_strip :: "string \<Rightarrow> string" where
  "py_strip s = rev (dropWhile py_space (rev (dropWhile py_space s)))"

definition strip_chars :: "string \<Rightarrow> string \<Rightarrow> string" where
  "strip_chars chars s =
     rev (dropWhile (\<lambda>c. c \<in> set chars) (rev (dropWhile (\<lambda>c. c \<in> set chars) s)))"

definition is_digit :: "char \<Rightarrow> bool" where
  "is_digit c = (CHR ''0'' \<le> c \<and> c \<le> CHR ''9'')"

definition isdigit :: "string \<Rightarrow> bool" where
  "isdigit s = (s \<noteq> [] \<and> list_all is_digit s)"

definition startswith :: "string \<Rightarrow> string \<Rightarrow> bool" where
  "startswith s pre = (take (length pre) s = pre)"

fun contains :: "string \<Rightarrow> string \<Rightarrow> bool" where
  "contains sub [] = (sub = [])"
| "contains sub (c # cs) = (startswith (c # cs) sub \<or> contains sub cs)"

section \<open>Outcomes, commands and the event trace\<close>

text \<open>
  A Python call either returns, raises, or ends the process through \<^verbatim>\<open>sys.exit\<close>.
  The commands handed to \<^verbatim>\<open>proc\<close> are strings (split by \<^verbatim>\<open>shlex\<close>) or argument
  lists. The trace records, in order, what the program hands to the command executor
  (\<open>Proc\<close>), what it prints as a dry-run command (\<open>Print\<close>) and what it logs through
  \<^verbatim>\<open>warn\<close>, \<^verbatim>\<open>info\<close> and \<^verbatim>\<open>banner\<close> (whether a logged line is shown depends on
  the verbosity, which is not modelled).
\<close>

datatype py_error = IndexError | KeyError | ValueError

datatype 'a outcome = Return 'a | Raise py_error | SysExit int

datatype command = Sh string | Argv "string list"

datatype event = Proc command | Print string | Warn string | Info string | Banner string

text \<open>
  What running a command gives: the exit status with the non-empty output lines, or
  \<open>Failed\<close> when \<^verbatim>\<open>BrewHelper.proc\<close> raises before anything is run
  (\<^verbatim>\<open>shlex.split\<close> rejects the command string with a \<^verbatim>\<open>ValueError\<close>, or the command
  has no word and \<^verbatim>\<open>cmd[0]\<close> is an \<^verbatim>\<open>IndexError\<close>). An \<^verbatim>\<open>OSError\<close> of \<^verbatim>\<open>Popen\<close>
  is the exit status \<open>-1\<close>, as in \<^verbatim>\<open>BrewHelper.proc\<close>.
\<close>

datatype proc_result = Exited int "string list" | Failed py_error

section \<open>class BrewInfo: one manifest document\<close>

record brew_info =
  brew_input_opt :: "string \<rightharpoonup> string"
  brew_input :: "string list"
  tap_input :: "string list"
  cask_input :: "string list"
  appstore_input :: "string list"
  main_input :: "string list"
  file_input :: "string list"
  before_input :: "string list"
  after_input :: "string list"
  cmd_input :: "string list"
  brew_list_opt :: "string \<rightharpoonup> string"
  brew_list :: "string list"
  brew_full_list :: "string list"
  tap_list :: "string list"
  cask_list :: "string list"
  appstore_list :: "string list"
  main_list :: "string list"
  file_list :: "string list"
  cask_nocask_list :: "string list"
  filename :: string

definition BrewInfo :: "string \<Rightarrow> brew_info" where
  "BrewInfo fname =
     \<lparr>brew_input_opt = Map.empty, brew_input = [], tap_input = [], cask_input = [],
      appstore_input = [], main_input = [], file_input = [], before_input = [],
      after_input = [], cmd_input = [], brew_list_opt = Map.empty, brew_list = [],
      brew_full_list = [], tap_list = [], cask_list = [], appstore_list = [],
      main_list = [], file_list = [], cask_nocask_list = [], filename = fname\<rparr>"

section \<open>class BrewFile: the manifest graph, the options and the outside world\<close>

text \<open>
  \<^verbatim>\<open>BrewFile\<close> holds three references to documents: \<^verbatim>\<open>self.brewinfo\<close> (the root),
  \<^verbatim>\<open>self.brewinfo_main\<close> and the list \<^verbatim>\<open>self.brewinfo_ext\<close>. \<^verbatim>\<open>read_all\<close> sets
  \<^verbatim>\<open>brewinfo_ext = [self.brewinfo]\<close>, appends every included document, and removes
  the main document from the list. So the main document is either the root object itself
  or another object, and in the second case the root is the first member of
  \<^verbatim>\<open>brewinfo_ext\<close>. The record keeps each object once: \<open>brewinfo\<close> is the root,
  \<open>main_alt\<close> is the main document when it is not the root, \<open>others\<close> are the members
  of \<^verbatim>\<open>brewinfo_ext\<close> other than the root. \<open>brewinfo_main\<close> and \<open>brewinfo_ext\<close> read
  the two attributes of the source off that.

  \<open>world\<close> is the state of the machine outside the program, \<open>trace\<close> the events so far,
  \<open>reinit\<close> the local flag of \<^verbatim>\<open>install\<close>; the \<open>opt_\<close> fields are the entries of
  \<^verbatim>\<open>self.opt\<close> that the modelled methods read.
\<close>

record 'w brew_file =
  brewinfo :: brew_info
  main_alt :: "brew_info option"
  others :: "brew_info list"
  world :: 'w
  trace :: "event list"
  reinit :: bool
  opt_caskonly :: bool
  opt_dryrun :: bool
  opt_link :: bool
  opt_appstore :: int
  opt_form :: string
  opt_cask_repo :: string
  opt_mas_cmd :: string
  opt_is_mas_cmd :: int

definition brewinfo_main :: "'w brew_file \<Rightarrow> brew_info" where
  "brewinfo_main s = (case main_alt s of None \<Rightarrow> brewinfo s | Some m \<Rightarrow> m)"

definition brewinfo_ext :: "'w brew_file \<Rightarrow> brew_info list" where
  "brewinfo_ext s = (case main_alt s of None \<Rightarrow> others s | Some m \<Rightarrow> brewinfo s # others s)"

text \<open>
  The outside world, as the program sees it: \<open>run\<close> executes a command in a world and
  gives its result and the world after it; \<open>expandpath\<close> expands environment variables;
  \<open>get_option\<close> is \<^verbatim>\<open>BrewInfo.get_option\<close>, a query of the package manager for the
  options a package was built with; \<open>check_mas\<close> is the part of \<^verbatim>\<open>check_mas_cmd\<close>
  that runs when no answer is cached; \<open>isdir\<close> and \<open>listdir\<close> read the file system,
  \<open>brew_repository\<close> and \<open>brew_cache\<close> are \<^verbatim>\<open>brew_val("repository")\<close> and
  \<^verbatim>\<open>brew_val("cache")\<close>; \<open>is_mac\<close> is \<^verbatim>\<open>is_mac()\<close>.
\<close>

record 'w env =
  run :: "'w \<Rightarrow> command \<Rightarrow> proc_result \<times> 'w"
  expandpath :: "string \<Rightarrow> string"
  get_option :: "'w \<Rightarrow> string \<Rightarrow> string outcome \<times> 'w"
  check_mas :: "'w \<Rightarrow> int outcome \<times> 'w"
  isdir :: "'w \<Rightarrow> string \<Rightarrow> bool"
  listdir :: "'w \<Rightarrow> string \<Rightarrow> string list"
  brew_repository :: string
  brew_cache :: string
  is_mac :: bool

subsection \<open>Sequencing\<close>

definition and_then ::
  "'a outcome \<times> 's \<Rightarrow> ('a \<Rightarrow> 's \<Rightarrow> 'b outcome \<times> 's) \<Rightarrow> 'b outcome \<times> 's" where
  "and_then r f =
     (case r of
        (Return a, s) \<Rightarrow> f a s
      | (Raise e, s) \<Rightarrow> (Raise e, s)
      | (SysExit n, s) \<Rightarrow> (SysExit n, s))"

fun for_each :: "('a \<Rightarrow> 's \<Rightarrow> unit outcome \<times> 's) \<Rightarrow> 'a list \<Rightarrow> 's \<Rightarrow> unit outcome \<times> 's" where
  "for_each body [] s = (Return (), s)"
| "for_each body (x # xs) s =
     (case body x s of
        (Return u, s') \<Rightarrow> for_each body xs s'
      | (Raise e, s') \<Rightarrow> (Raise e, s')
      | (SysExit n, s') \<Rightarrow> (SysExit n, s'))"

definition log_event :: "event \<Rightarrow> 'w brew_file \<Rightarrow> 'w brew_file" where
  "log_event e s = s\<lparr>trace := trace s @ [e]\<rparr>"

text \<open>
  \<^verbatim>\<open>BrewFile.proc\<close> / \<^verbatim>\<open>BrewHelper.proc\<close>: run the command; with \<^verbatim>\<open>exit_on_err\<close>
  (the default of both methods) a non-zero status ends the process with that status.
\<close>

definition proc ::
  "'w env \<Rightarrow> command \<Rightarrow> bool \<Rightarrow> 'w brew_file \<Rightarrow> (int \<times> string list) outcome \<times> 'w brew_file" where
  "proc E cmd exit_on_err s =
     (case run E (world s) cmd of
        (Failed e, w') \<Rightarrow> (Raise e, log_event (Proc cmd) (s\<lparr>world := w'\<rparr>))
      | (Exited ret lines, w') \<Rightarrow>
          (let s' = log_event (Proc cmd) (s\<lparr>world := w'\<rparr>)
           in if exit_on_err \<and> ret \<noteq> 0 then (SysExit ret, s') else (Return (ret, lines), s')))"

text \<open>
  \<^verbatim>\<open>BrewFile.get(name)\<close>: the main document's value followed by (for a dictionary:
  updated with) the value of each member of \<^verbatim>\<open>brewinfo_ext\<close>, in order; with
  \<^verbatim>\<open>only_ext\<close> the main document's part is dropped.
\<close>

definition get :: "(brew_info \<Rightarrow> 'a list) \<Rightarrow> 'w brew_file \<Rightarrow> 'a list" where
  "get name s = name (brewinfo_main s) @ concat (map name (brewinfo_ext s))"

definition get_only_ext :: "(brew_info \<Rightarrow> 'a list) \<Rightarrow> 'w brew_file \<Rightarrow> 'a list" where
  "get_only_ext name s = concat (map name (brewinfo_ext s))"

definition get_dict :: "(brew_info \<Rightarrow> string \<rightharpoonup> string) \<Rightarrow> 'w brew_file \<Rightarrow> string \<rightharpoonup> string" where
  "get_dict name s = foldl (++) (name (brewinfo_main s)) (map name (brewinfo_ext s))"

section \<open>BrewFile.install: converge the machine to the manifest\<close>

text \<open>
  \<^verbatim>\<open>install\<close> starts with \<^verbatim>\<open>get_list(force_appstore_list=True)\<close> and \<^verbatim>\<open>read_all()\<close>,
  which fill the \<open>_list\<close> fields of the root from the machine and the \<open>_input\<close>
  fields of every document from the manifest files. The model starts from the state after
  them and covers the loops of the method; its closing block (which, when \<open>reinit\<close> is
  set, copies the inputs to the lists and rewrites the manifest files) is not part of it.
\<close>

text \<open>The replay of generated link commands, for one output line of an install.\<close>

definition link_line :: "'w env \<Rightarrow> string \<Rightarrow> 'w brew_file \<Rightarrow> unit outcome \<times> 'w brew_file" where
  "link_line E line s =
     and_then
       (if contains ''ln -s'' line \<and> opt_link s
        then and_then (proc E (Argv (map (expandpath E) (py_split line))) True s)
               (\<lambda>r s'. (Return (), s'))
        else (Return (), s))
       (\<lambda>u s1.
          if contains ''brew linkapps'' line \<and> opt_link s1
          then and_then (proc E (Sh ''brew linkapps'') True s1) (\<lambda>r s'. (Return (), s'))
          else (Return (), s1))"

text \<open>
  The head of the package loop's body: \<open>Return None\<close> is \<^verbatim>\<open>continue\<close>, otherwise the
  sub-command to run. A missing key of \<^verbatim>\<open>self.get("brew_input_opt")[p]\<close> is a
  \<^verbatim>\<open>KeyError\<close>.
\<close>

definition brew_cmd_for :: "string \<Rightarrow> 'w brew_file \<Rightarrow> string option outcome" where
  "brew_cmd_for p s =
     (if p \<in> set (get brew_full_list s) then
        (case get_dict brew_list_opt s p of
           None \<Rightarrow> Return None
         | Some lo \<Rightarrow>
             (case get_dict brew_input_opt s p of
                None \<Rightarrow> Raise KeyError
              | Some io \<Rightarrow>
                  if sort (py_split io) = sort (py_split lo) then Return None
                  else Return (Some ''reinstall'')))
      else Return (Some ''install''))"

definition cannot_install_msg :: "string \<Rightarrow> string" where
  "cannot_install_msg p =
     ''Can not install '' @ p @ ''.Please check the package name.'' @ [CHR 0x0A] @ p
       @ '' may be installed by using web direct formula.''"

text \<open>
  The tail of the body, after a successful command: when the package is in
  \<^verbatim>\<open>brew_list\<close> and its declared options differ from the recorded ones, the root's
  \<^verbatim>\<open>brew_input_opt\<close> takes the options the package manager now reports.
\<close>

definition brew_update_opt :: "'w env \<Rightarrow> string \<Rightarrow> 'w brew_file \<Rightarrow> unit outcome \<times> 'w brew_file" where
  "brew_update_opt E p s =
     (if p \<in> set (get brew_list s) then
        (case get_dict brew_input_opt s p of
           None \<Rightarrow> (Raise KeyError, s)
         | Some io \<Rightarrow>
             (case get_dict brew_list_opt s p of
                None \<Rightarrow> (Raise KeyError, s)
              | Some lo \<Rightarrow>
                  if io \<noteq> lo then
                    (case get_option E (world s) p of
                       (Return opt, w') \<Rightarrow>
                         (Return (),
                          s\<lparr>world := w',
                            brewinfo := (brewinfo s)\<lparr>brew_input_opt :=
                                          (brew_input_opt (brewinfo s))(p \<mapsto> opt)\<rparr>,
                            reinit := True\<rparr>)
                     | (Raise e, w') \<Rightarrow> (Raise e, s\<lparr>world := w'\<rparr>)
                     | (SysExit n, w') \<Rightarrow> (SysExit n, s\<lparr>world := w'\<rparr>))
                  else (Return (), s)))
      else (Return (), s))"

definition install_brew :: "'w env \<Rightarrow> string \<Rightarrow> 'w brew_file \<Rightarrow> unit outcome \<times> 'w brew_file" where
  "install_brew E p s =
     (case brew_cmd_for p s of
        Raise e \<Rightarrow> (Raise e, s)
      | SysExit n \<Rightarrow> (SysExit n, s)
      | Return None \<Rightarrow> (Return (), s)
      | Return (Some cmd) \<Rightarrow>
          (case get_dict brew_input_opt s p of
             None \<Rightarrow> (Raise KeyError, s)
           | Some io \<Rightarrow>
               and_then (proc E (Sh (''brew '' @ cmd @ '' '' @ p @ io)) True s)
                 (\<lambda>(ret, lines) s1.
                    if ret \<noteq> 0 then (Return (), log_event (Warn (cannot_install_msg p)) s1)
                    else and_then (for_each (link_line E) lines s1)
                           (\<lambda>u s2. brew_update_opt E p s2))))"

text \<open>
  \<^verbatim>\<open>check_mas_cmd(True)\<close>: a cached non-zero answer is returned as it is; otherwise the
  environment decides (and may end the process), and the answer is cached.
\<close>

definition check_mas_cmd :: "'w env \<Rightarrow> 'w brew_file \<Rightarrow> int outcome \<times> 'w brew_file" where
  "check_mas_cmd E s =
     (if opt_is_mas_cmd s \<noteq> 0 then (Return (opt_is_mas_cmd s), s)
      else (case check_mas E (world s) of
              (Return r, w') \<Rightarrow> (Return r, s\<lparr>world := w', opt_is_mas_cmd := r\<rparr>)
            | (Raise e, w') \<Rightarrow> (Raise e, s\<lparr>world := w'\<rparr>)
            | (SysExit n, w') \<Rightarrow> (SysExit n, s\<lparr>world := w'\<rparr>)))"

text \<open>
  The store-app loop of \<^verbatim>\<open>install\<close>. \<open>appstore_id_name\<close> splits an entry into the
  identifier (empty unless the first word is a number of nine digits or more) and the
  name; \<open>appstore_islist\<close> is the inner loop over the installed entries, which compares
  the names.
\<close>

definition appstore_id_name :: "string \<Rightarrow> (string \<times> string) outcome" where
  "appstore_id_name p =
     (case py_split p of
        [] \<Rightarrow> Raise IndexError
      | identifier # rest \<Rightarrow>
          if isdigit identifier \<and> length identifier \<ge> 9
          then Return (identifier, py_join '' '' rest)
          else Return ('''', p))"

fun appstore_islist :: "string \<Rightarrow> string list \<Rightarrow> bool outcome" where
  "appstore_islist package [] = Return False"
| "appstore_islist package (pl # pls) =
     (case appstore_id_name pl of
        Raise e \<Rightarrow> Raise e
      | SysExit n \<Rightarrow> SysExit n
      | Return (l_identifier, l_package) \<Rightarrow>
          if package = l_package then Return True else appstore_islist package pls)"

definition install_appstore :: "'w env \<Rightarrow> string \<Rightarrow> 'w brew_file \<Rightarrow> unit outcome \<times> 'w brew_file" where
  "install_appstore E p s =
     (if p \<in> set (get appstore_list s) then (Return (), s)
      else
        (case appstore_id_name p of
           Raise e \<Rightarrow> (Raise e, s)
         | SysExit n \<Rightarrow> (SysExit n, s)
         | Return (identifier, package) \<Rightarrow>
             (case appstore_islist package (get appstore_list s) of
                Raise e \<Rightarrow> (Raise e, s)
              | SysExit n \<Rightarrow> (SysExit n, s)
              | Return True \<Rightarrow> (Return (), s)
              | Return False \<Rightarrow>
                  (let s1 = log_event (Info (''Installing '' @ package)) s in
                   if identifier \<noteq> '''' then
                     and_then (check_mas_cmd E s1)
                       (\<lambda>r s2.
                          if r = 1 then
                            and_then (proc E (Sh (opt_mas_cmd s2 @ '' purchase '' @ identifier)) True s2)
                              (\<lambda>r s'. (Return (), s'))
                          else
                            and_then
                              (proc E (Sh (''open -W '' @ [CHR 0x27]
                                            @ ''macappstore://itunes.apple.com/app/id''
                                            @ identifier @ [CHR 0x27])) True
                                 (log_event (Info (''Please install '' @ package @ '' from AppStore.'')) s2))
                              (\<lambda>r s'. (Return (), s')))
                   else
                     (Return (),
                      log_event (Warn (''No id or wrong id information was given for AppStore App: ''
                                        @ package @ ''.'' @ [CHR 0x0A] @ ''Please install it manually.''))
                        s1)))))"

definition run_cmd :: "'w env \<Rightarrow> string \<Rightarrow> 'w brew_file \<Rightarrow> unit outcome \<times> 'w brew_file" where
  "run_cmd E c s = and_then (proc E (Sh c) True s) (\<lambda>r s'. (Return (), s'))"

definition install_tap :: "'w env \<Rightarrow> string \<Rightarrow> 'w brew_file \<Rightarrow> unit outcome \<times> 'w brew_file" where
  "install_tap E p s =
     (if p \<in> set (get tap_list s) \<or> p = ''direct'' then (Return (), s)
      else run_cmd E (''brew tap '' @ p) s)"

definition install_cask :: "'w env \<Rightarrow> string \<Rightarrow> 'w brew_file \<Rightarrow> unit outcome \<times> 'w brew_file" where
  "install_cask E p s =
     (if p \<in> set (get cask_list s) then (Return (), s)
      else run_cmd E (''brew install --cask --force '' @ p) s)"

definition install :: "'w env \<Rightarrow> 'w brew_file \<Rightarrow> unit outcome \<times> 'w brew_file" where
  "install E s0 =
     and_then (for_each (run_cmd E) (get before_input s0) (s0\<lparr>reinit := False\<rparr>))
      (\<lambda>u s1. and_then (for_each (install_tap E) (get tap_input s1) s1)
      (\<lambda>u s2. and_then (if is_mac E then for_each (install_cask E) (get cask_input s2) s2
                        else (Return (), s2))
      (\<lambda>u s3. and_then (if \<not> opt_caskonly s3 then for_each (install_brew E) (get brew_input s3) s3
                        else (Return (), s3))
      (\<lambda>u s4. and_then (if is_mac E \<and> opt_appstore s4 \<noteq> 0
                        then for_each (install_appstore E) (get appstore_input s4) s4
                        else (Return (), s4))
      (\<lambda>u s5. and_then (for_each (run_cmd E) (get cmd_input s5) s5)
      (\<lambda>u s6. for_each (run_cmd E) (get after_input s6) s6))))))"

subsection \<open>What the package loop may run besides the package command, and test scenarios\<close>


text \<open>
  \<open>quiet_env\<close> is a machine on which every command succeeds and prints nothing.
  \<open>failing_env\<close> differs in one point: \<^verbatim>\<open>brew install a\<close> ends with status 1.
\<close>

definition quiet_env :: "unit env" where
  "quiet_env =
     \<lparr>run = (\<lambda>w c. (Exited 0 [], w)), expandpath = (\<lambda>x. x),
      get_option = (\<lambda>w p. (Return [], w)), check_mas = (\<lambda>w. (Return 1, w)),
      isdir = (\<lambda>w p. False), listdir = (\<lambda>w p. []),
      brew_repository = ''/usr/local/Homebrew'', brew_cache = ''/Library/Caches/Homebrew'',
      is_mac = True\<rparr>"

definition failing_env :: "unit env" where
  "failing_env =
     quiet_env\<lparr>run := (\<lambda>w c. if c = Sh ''brew install a'' then (Exited 1 [], w)
                               else (Exited 0 [], w))\<rparr>"

definition BrewFile :: "brew_info \<Rightarrow> unit brew_file" where
  "BrewFile b =
     \<lparr>brewinfo = b, main_alt = None, others = [], world = (), trace = [], reinit = False,
      opt_caskonly = False, opt_dryrun = True, opt_link = True, opt_appstore = 1,
      opt_form = ''none'', opt_cask_repo = ''homebrew/cask'', opt_mas_cmd = ''mas'',
      opt_is_mas_cmd = 1\<rparr>"


text \<open>The manifest declares the packages \<^verbatim>\<open>a\<close> and \<^verbatim>\<open>b\<close>; nothing is installed.\<close>

definition two_packages_doc :: brew_info where
  "two_packages_doc =
     (BrewInfo ''Brewfile'')
       \<lparr>brew_input_opt := [''a'' \<mapsto> [], ''b'' \<mapsto> []], brew_input := [''a'', ''b''],
        tap_input := [''direct''], tap_list := [''direct'']\<rparr>"

text \<open>
  The manifest declares one store application; the machine reports one installed store
  application.
\<close>

definition appstore_doc :: "string \<Rightarrow> string \<Rightarrow> brew_info" where
  "appstore_doc declared installed =
     (BrewInfo ''Brewfile'')
       \<lparr>tap_input := [''direct''], appstore_input := [declared],
        tap_list := [''direct''], appstore_list := [installed]\<rparr>"

section \<open>BrewFile.cleanup: remove what the manifest does not declare\<close>

subsection \<open>The store-app matching of cleanup\<close>

text \<open>
  \<open>has_version\<close> is \<^verbatim>\<open>re.match(r".*\(\d+\.\d+.*\)$", s)\<close>: somewhere on the first line
  of \<open>s\<close> an opening parenthesis is followed by digits, a dot and a digit, and the string
  ends with a closing parenthesis (a final line break apart). \<open>split_on\<close> is
  \<^verbatim>\<open>s.split(c)\<close> with an explicit separator, which keeps empty fields.
\<close>

definition ends_paren :: "string \<Rightarrow> bool" where
  "ends_paren t =
     (let u = (if t \<noteq> [] \<and> last t = CHR 0x0A then butlast t else t)
      in u \<noteq> [] \<and> last u = CHR '')'' \<and> CHR 0x0A \<notin> set (butlast u))"

definition version_at :: "string \<Rightarrow> bool" where
  "version_at t =
     (case t of
        [] \<Rightarrow> False
      | c # r \<Rightarrow>
          c = CHR ''(''
          \<and> takeWhile is_digit r \<noteq> []
          \<and> (case dropWhile is_digit r of
                [] \<Rightarrow> False
              | d # r2 \<Rightarrow>
                  d = CHR ''.''
                  \<and> (case r2 of [] \<Rightarrow> False | e # r3 \<Rightarrow> is_digit e \<and> ends_paren r3)))"

fun has_version :: "string \<Rightarrow> bool" where
  "has_version [] = False"
| "has_version (c # cs) = (version_at (c # cs) \<or> (c \<noteq> CHR 0x0A \<and> has_version cs))"

fun split_on :: "char \<Rightarrow> string \<Rightarrow> string list" where
  "split_on sep [] = [[]]"
| "split_on sep (c # cs) =
     (if c = sep then [] # split_on sep cs
      else (case split_on sep cs of [] \<Rightarrow> [[c]] | w # ws \<Rightarrow> (c # w) # ws))"

text \<open>
  The identifier and the name of a store-app entry, as the cleanup loop computes them for
  the installed entry and for each declared entry: a numeric first word is the identifier,
  and a version in parentheses at the end of the name is cut off with the last word.
\<close>

definition cleanup_id_name :: "string \<Rightarrow> (string \<times> string) outcome" where
  "cleanup_id_name p =
     (case py_split p of
        [] \<Rightarrow> Raise IndexError
      | identifier # rest \<Rightarrow>
          (let (ident, package) =
                 (if isdigit identifier then (identifier, py_join '' '' rest) else ('''', p))
           in Return (ident,
                      if has_version package
                      then py_join '' '' (butlast (split_on CHR '' '' package))
                      else package)))"

fun cleanup_isinput :: "string \<Rightarrow> string \<Rightarrow> string list \<Rightarrow> bool outcome" where
  "cleanup_isinput identifier package [] = Return False"
| "cleanup_isinput identifier package (pi # pis) =
     (case cleanup_id_name pi of
        Raise e \<Rightarrow> Raise e
      | SysExit n \<Rightarrow> SysExit n
      | Return (i_identifier, i_package) \<Rightarrow>
          if (identifier \<noteq> '''' \<and> identifier = i_identifier) \<or> package = i_package
          then Return True
          else cleanup_isinput identifier package pis)"

text \<open>
  Whether the cleanup loop finds the installed entry \<open>p\<close> among the declared entries
  (\<^verbatim>\<open>isinput\<close>), in which case it leaves the application alone.
\<close>

definition cleanup_appstore_isinput :: "string \<Rightarrow> 'w brew_file \<Rightarrow> bool outcome" where
  "cleanup_appstore_isinput p s =
     (case cleanup_id_name p of
        Raise e \<Rightarrow> Raise e
      | SysExit n \<Rightarrow> SysExit n
      | Return (identifier, package) \<Rightarrow>
          cleanup_isinput identifier package (get appstore_input s))"

subsection \<open>What a tap provides\<close>

text \<open>
  \<^verbatim>\<open>os.path.dirname\<close>, \<^verbatim>\<open>os.path.basename\<close>, \<^verbatim>\<open>str.endswith\<close> and
  \<^verbatim>\<open>str.replace\<close> (for a non-empty pattern), then \<^verbatim>\<open>get_tap_path\<close>,
  \<^verbatim>\<open>get_tap_packs\<close> and \<^verbatim>\<open>get_tap_casks\<close>, which list the definition files
  in the tap's local directory.
\<close>

definition basename :: "string \<Rightarrow> string" where
  "basename p = rev (takeWhile (\<lambda>c. c \<noteq> CHR ''/'') (rev p))"

definition dirname :: "string \<Rightarrow> string" where
  "dirname p =
     (let head = rev (dropWhile (\<lambda>c. c \<noteq> CHR ''/'') (rev p))
      in if head \<noteq> [] \<and> \<not> list_all (\<lambda>c. c = CHR ''/'') head
         then rev (dropWhile (\<lambda>c. c = CHR ''/'') (rev head))
         else head)"

definition endswith :: "string \<Rightarrow> string \<Rightarrow> bool" where
  "endswith s suf = startswith (rev s) (rev suf)"

fun replace :: "string \<Rightarrow> string \<Rightarrow> string \<Rightarrow> string" where
  "replace old new [] = []"
| "replace old new (c # cs) =
     (if old \<noteq> [] \<and> startswith (c # cs) old
      then new @ replace old new (drop (length old - 1) cs)
      else c # replace old new cs)"

definition get_tap_path :: "'w env \<Rightarrow> string \<Rightarrow> string" where
  "get_tap_path E tap =
     (if tap = ''direct'' then brew_cache E @ ''/Formula''
      else brew_repository E @ ''/Library/Taps'' @ ''/'' @ dirname tap
             @ ''/homebrew-'' @ basename tap)"

definition rb_names :: "string list \<Rightarrow> string list" where
  "rb_names files = map (\<lambda>x. replace ''.rb'' [] x) (filter (\<lambda>y. endswith y ''.rb'') files)"

definition get_tap_packs :: "'w env \<Rightarrow> 'w \<Rightarrow> string \<Rightarrow> string list" where
  "get_tap_packs E w tap =
     (let tap_path = get_tap_path E tap in
      if \<not> isdir E w tap_path then []
      else sort (rb_names (listdir E w tap_path)
                 @ (if isdir E w (tap_path @ ''/Formula'')
                    then rb_names (listdir E w (tap_path @ ''/Formula'')) else [])))"

definition get_tap_casks :: "'w env \<Rightarrow> 'w \<Rightarrow> string \<Rightarrow> string list" where
  "get_tap_casks E w tap =
     (let tap_path = get_tap_path E tap in
      if \<not> isdir E w tap_path then []
      else if isdir E w (tap_path @ ''/Casks'')
           then sort (rb_names (listdir E w (tap_path @ ''/Casks'')))
           else [])"

subsection \<open>The package loop and the tap loop of cleanup\<close>






subsection \<open>Removal events and test machines\<close>

text \<open>
  A removal is printed in a dry run and handed to the executor otherwise: \<open>removes_tap\<close>
  and \<open>removes_pack\<close> recognise the two forms of the removal of a tap and of a package.
  \<open>same_docs\<close> relates two states with the same documents and the same dry-run option.
\<close>

definition removes_tap :: "string \<Rightarrow> event \<Rightarrow> bool" where
  "removes_tap R e = (e = Print (''brew untap '' @ R) \<or> e = Proc (Sh (''brew untap '' @ R)))"

definition removes_pack :: "string \<Rightarrow> event \<Rightarrow> bool" where
  "removes_pack P e =
     (e = Print (''brew uninstall --ignore-dependencies '' @ P)
      \<or> e = Proc (Sh (''brew uninstall --ignore-dependencies '' @ P)))"




section \<open>BrewFile.clean_list: the dedup pass of initialize\<close>

text \<open>
  The list methods of \<^verbatim>\<open>BrewInfo\<close>: \<open>list_remove\<close> is \<^verbatim>\<open>list.remove\<close> (the first
  occurrence goes, a \<^verbatim>\<open>ValueError\<close> when there is none), \<open>add_list\<close> is
  \<^verbatim>\<open>BrewInfo.add\<close> on a list, \<open>input_to_list\<close> is \<^verbatim>\<open>BrewInfo.input_to_list\<close>.
\<close>

definition list_remove :: "'a \<Rightarrow> 'a list \<Rightarrow> 'a list outcome" where
  "list_remove x xs = (if x \<in> set xs then Return (remove1 x xs) else Raise ValueError)"

definition add_list :: "'a list \<Rightarrow> 'a list \<Rightarrow> 'a list" where
  "add_list cur val = cur @ filter (\<lambda>x. x \<notin> set cur) val"

definition input_to_list :: "brew_info \<Rightarrow> brew_info" where
  "input_to_list b =
     b\<lparr>brew_list_opt := brew_input_opt b, brew_list := brew_input b, brew_full_list := [],
       tap_list := tap_input b, cask_list := cask_input b, cask_nocask_list := [],
       appstore_list := appstore_input b, main_list := main_input b,
       file_list := file_input b\<rparr>"

text \<open>
  The loop \<^verbatim>\<open>for p in b.get(name): if cond(p): b.remove(name, p)\<close>: it runs over a copy
  of the list and removes from the list itself.
\<close>

fun remove_each :: "('a \<Rightarrow> bool) \<Rightarrow> 'a list \<Rightarrow> 'a list \<Rightarrow> 'a list outcome" where
  "remove_each cond [] cur = Return cur"
| "remove_each cond (p # ps) cur =
     (if cond p then
        (case list_remove p cur of
           Return cur' \<Rightarrow> remove_each cond ps cur'
         | Raise e \<Rightarrow> Raise e
         | SysExit n \<Rightarrow> SysExit n)
      else remove_each cond ps cur)"

text \<open>
  The first loop of \<^verbatim>\<open>clean_list\<close>, for one document \<open>b\<close>: an input entry that is
  not in the root's list of the same kind is removed from the input.
\<close>

definition clean_input :: "brew_info \<Rightarrow> brew_info \<Rightarrow> brew_info outcome" where
  "clean_input root b =
     (case remove_each (\<lambda>p. p \<notin> set (brew_list root)) (brew_input b) (brew_input b) of
        Raise e \<Rightarrow> Raise e | SysExit n \<Rightarrow> SysExit n
      | Return bi \<Rightarrow>
     (case remove_each (\<lambda>p. p \<notin> set (tap_list root)) (tap_input b) (tap_input b) of
        Raise e \<Rightarrow> Raise e | SysExit n \<Rightarrow> SysExit n
      | Return ti \<Rightarrow>
     (case remove_each (\<lambda>p. p \<notin> set (cask_list root)) (cask_input b) (cask_input b) of
        Raise e \<Rightarrow> Raise e | SysExit n \<Rightarrow> SysExit n
      | Return ci \<Rightarrow>
     (case remove_each (\<lambda>p. p \<notin> set (appstore_list root)) (appstore_input b) (appstore_input b) of
        Raise e \<Rightarrow> Raise e | SysExit n \<Rightarrow> SysExit n
      | Return ai \<Rightarrow>
          Return (b\<lparr>brew_input := bi, tap_input := ti, cask_input := ci,
                     appstore_input := ai\<rparr>)))))"

fun clean_inputs :: "brew_info \<Rightarrow> brew_info list \<Rightarrow> brew_info list outcome" where
  "clean_inputs root [] = Return []"
| "clean_inputs root (b # bs) =
     (case clean_input root b of
        Raise e \<Rightarrow> Raise e | SysExit n \<Rightarrow> SysExit n
      | Return b' \<Rightarrow>
          (case clean_inputs root bs of
             Raise e \<Rightarrow> Raise e | SysExit n \<Rightarrow> SysExit n
           | Return bs' \<Rightarrow> Return (b' # bs')))"

text \<open>
  The loop runs over \<^verbatim>\<open>self.brewinfo_ext + [self.brewinfo_main]\<close>. Only inputs change
  and only the root's lists are read, so the documents are cleaned one by one against the
  same lists.
\<close>

definition clean_all_inputs :: "'w brew_file \<Rightarrow> 'w brew_file outcome" where
  "clean_all_inputs s =
     (case clean_inputs (brewinfo s) (others s) of
        Raise e \<Rightarrow> Raise e | SysExit n \<Rightarrow> SysExit n
      | Return os \<Rightarrow>
          (case clean_input (brewinfo s) (brewinfo s) of
             Raise e \<Rightarrow> Raise e | SysExit n \<Rightarrow> SysExit n
           | Return r \<Rightarrow>
               (case main_alt s of
                  None \<Rightarrow> Return (s\<lparr>brewinfo := r, others := os\<rparr>)
                | Some m \<Rightarrow>
                    (case clean_input (brewinfo s) m of
                       Raise e \<Rightarrow> Raise e | SysExit n \<Rightarrow> SysExit n
                     | Return m' \<Rightarrow>
                         Return (s\<lparr>brewinfo := r, others := os, main_alt := Some m'\<rparr>)))))"

text \<open>\<^verbatim>\<open>list_to_main\<close>: nothing when the root is the main document.\<close>

definition list_to_main :: "'w brew_file \<Rightarrow> 'w brew_file" where
  "list_to_main s =
     (case main_alt s of
        None \<Rightarrow> s
      | Some m \<Rightarrow>
          s\<lparr>main_alt := Some
              (m\<lparr>brew_list := add_list (brew_list m) (brew_list (brewinfo s)),
                 brew_full_list := add_list (brew_full_list m) (brew_list (brewinfo s)),
                 tap_list := add_list (tap_list m) (tap_list (brewinfo s)),
                 cask_list := add_list (cask_list m) (cask_list (brewinfo s)),
                 cask_nocask_list := add_list (cask_nocask_list m) (cask_list (brewinfo s)),
                 appstore_list := add_list (appstore_list m) (appstore_list (brewinfo s)),
                 brew_list_opt := brew_list_opt m ++ brew_list_opt (brewinfo s)\<rparr>)\<rparr>)"

definition update_main :: "(brew_info \<Rightarrow> brew_info) \<Rightarrow> 'w brew_file \<Rightarrow> 'w brew_file" where
  "update_main f s =
     (case main_alt s of
        None \<Rightarrow> s\<lparr>brewinfo := f (brewinfo s)\<rparr>
      | Some m \<Rightarrow> s\<lparr>main_alt := Some (f m)\<rparr>)"

definition update_ext :: "(brew_info \<Rightarrow> brew_info) \<Rightarrow> 'w brew_file \<Rightarrow> 'w brew_file" where
  "update_ext f s =
     (case main_alt s of
        None \<Rightarrow> s\<lparr>others := map f (others s)\<rparr>
      | Some m \<Rightarrow> s\<lparr>brewinfo := f (brewinfo s), others := map f (others s)\<rparr>)"

text \<open>
  The second loop: an entry of a list of the main document that is in the input of a
  member of \<^verbatim>\<open>brewinfo_ext\<close> is removed from the main document's list.
\<close>

definition dedup_main :: "'w brew_file \<Rightarrow> 'w brew_file outcome" where
  "dedup_main s =
     (let m = brewinfo_main s in
      case remove_each (\<lambda>p. p \<in> set (get_only_ext brew_input s)) (brew_list m) (brew_list m) of
        Raise e \<Rightarrow> Raise e | SysExit n \<Rightarrow> SysExit n
      | Return bl \<Rightarrow>
     (case remove_each (\<lambda>p. p \<in> set (get_only_ext cask_input s)) (cask_list m) (cask_list m) of
        Raise e \<Rightarrow> Raise e | SysExit n \<Rightarrow> SysExit n
      | Return cl \<Rightarrow>
     (case remove_each (\<lambda>p. p \<in> set (get_only_ext cask_input s))
             (cask_nocask_list m) (cask_nocask_list m) of
        Raise e \<Rightarrow> Raise e | SysExit n \<Rightarrow> SysExit n
      | Return nl \<Rightarrow>
     (case remove_each (\<lambda>p. p \<in> set (get_only_ext appstore_input s))
             (appstore_list m) (appstore_list m) of
        Raise e \<Rightarrow> Raise e | SysExit n \<Rightarrow> SysExit n
      | Return al \<Rightarrow>
          Return (update_main
                    (\<lambda>m. m\<lparr>brew_list := bl, cask_list := cl, cask_nocask_list := nl,
                            appstore_list := al\<rparr>) s)))))"

definition clean_list :: "'w brew_file \<Rightarrow> 'w brew_file outcome" where
  "clean_list s =
     (case clean_all_inputs s of
        Raise e \<Rightarrow> Raise e | SysExit n \<Rightarrow> SysExit n
      | Return s1 \<Rightarrow>
          (case dedup_main (list_to_main s1) of
             Raise e \<Rightarrow> Raise e | SysExit n \<Rightarrow> SysExit n
           | Return s3 \<Rightarrow>
               Return (update_ext input_to_list
                        (update_main
                           (\<lambda>m. m\<lparr>main_list := add_list (main_list m) (main_input m),
                                   file_list := add_list (file_list m) (file_input m)\<rparr>)
                           s3))))"

text \<open>
  A root that declares \<^verbatim>\<open>x\<close> and \<^verbatim>\<open>y\<close> and includes a satellite file that declares
  \<^verbatim>\<open>x\<close>; both packages are installed.
\<close>

definition satellite_doc :: brew_info where
  "satellite_doc =
     (BrewInfo ''Brewfile.ext'')
       \<lparr>brew_input_opt := [''x'' \<mapsto> []], brew_input := [''x''], tap_input := [''direct'']\<rparr>"

definition root_doc :: brew_info where
  "root_doc =
     (BrewInfo ''Brewfile'')
       \<lparr>brew_input_opt := [''x'' \<mapsto> [], ''y'' \<mapsto> []], brew_input := [''x'', ''y''],
        tap_input := [''direct''], file_input := [''Brewfile.ext''],
        brew_list_opt := [''x'' \<mapsto> [], ''y'' \<mapsto> []], brew_list := [''x'', ''y''],
        brew_full_list := [''x'', ''y''], tap_list := [''direct'']\<rparr>"

definition root_with_satellite :: "unit brew_file" where
  "root_with_satellite = (BrewFile root_doc)\<lparr>others := [satellite_doc]\<rparr>"

section \<open>BrewInfo.read: parsing a manifest\<close>

subsection \<open>The patterns tested on a line\<close>

text \<open>
  \<open>is_endignore\<close> and \<open>is_ignore_mark\<close> are \<^verbatim>\<open>re.match("# *BREWFILE_ENDIGNORE", line)\<close>
  and \<^verbatim>\<open>re.match("# *BREWFILE_IGNORE", line)\<close>; \<open>is_blank\<close> is
  \<^verbatim>\<open>re.match(" *$", line)\<close> (only spaces, a final line break apart) and \<open>is_comment\<close>
  is \<^verbatim>\<open>re.match(" *#", line)\<close>. A line is a string that may end with a line break, as
  \<^verbatim>\<open>readlines\<close> gives it.
\<close>

definition skip_spaces :: "string \<Rightarrow> string" where
  "skip_spaces s = dropWhile (\<lambda>c. c = CHR '' '') s"

definition is_endignore :: "string \<Rightarrow> bool" where
  "is_endignore line =
     (case line of [] \<Rightarrow> False
      | c # r \<Rightarrow> c = CHR ''#'' \<and> startswith (skip_spaces r) ''BREWFILE_ENDIGNORE'')"

definition is_ignore_mark :: "string \<Rightarrow> bool" where
  "is_ignore_mark line =
     (case line of [] \<Rightarrow> False
      | c # r \<Rightarrow> c = CHR ''#'' \<and> startswith (skip_spaces r) ''BREWFILE_IGNORE'')"

definition is_blank :: "string \<Rightarrow> bool" where
  "is_blank line = (skip_spaces line = [] \<or> skip_spaces line = [CHR 0x0A])"

definition is_comment :: "string \<Rightarrow> bool" where
  "is_comment line = startswith (skip_spaces line) ''#''"

text \<open>
  The words of a line after the quote characters and brackets are removed and each comma
  is turned into a space.
\<close>

definition line_args :: "string \<Rightarrow> string list" where
  "line_args line =
     py_split
       (filter (\<lambda>c. c \<noteq> CHR '']'')
         (filter (\<lambda>c. c \<noteq> CHR ''['')
           (map (\<lambda>c. if c = CHR '','' then CHR '' '' else c)
             (filter (\<lambda>c. c \<noteq> CHR 0x22)
               (filter (\<lambda>c. c \<noteq> CHR 0x27) line)))))"

text \<open>
  The two normalisations of the words: with more than two words and \<^verbatim>\<open>tap\<close> or
  \<^verbatim>\<open>cask\<close> in second place the first word is dropped; then, with more than two words,
  \<^verbatim>\<open>brew\<close> or \<^verbatim>\<open>cask\<close> first and \<^verbatim>\<open>install\<close> second, the second word is dropped.
  The flag tells whether the rule fired.
\<close>

fun drop_first_word :: "string list \<Rightarrow> string list \<times> bool" where
  "drop_first_word (a # p # x # xs) =
     (if p = ''tap'' \<or> p = ''cask'' then (p # x # xs, True) else (a # p # x # xs, False))"
| "drop_first_word args = (args, False)"

fun drop_install_word :: "string list \<Rightarrow> string list \<times> bool" where
  "drop_install_word (cmd # p # x # xs) =
     (if (cmd = ''brew'' \<or> cmd = ''cask'') \<and> p = ''install'' then (cmd # x # xs, True)
      else (cmd # p # x # xs, False))"
| "drop_install_word args = (args, False)"

definition norm_args :: "string list \<Rightarrow> string list" where
  "norm_args args = fst (drop_install_word (fst (drop_first_word args)))"

definition norm_fired :: "string list \<Rightarrow> bool" where
  "norm_fired args = (snd (drop_first_word args) \<or> snd (drop_install_word (fst (drop_first_word args))))"

text \<open>The options string built from the words after the second one.\<close>

fun line_opt :: "string list \<Rightarrow> string" where
  "line_opt (cmd # p # x # xs) =
     (if x = ''args:'' then '' '' @ py_strip (py_join '' '' (map (\<lambda>y. ''--'' @ y) xs))
      else '' '' @ py_strip (py_join '' '' (x # xs)))"
| "line_opt args = []"

fun has_args_word :: "string list \<Rightarrow> bool" where
  "has_args_word (cmd # p # x # xs) = (x = ''args:'')"
| "has_args_word args = False"

definition lower :: "string \<Rightarrow> string" where
  "lower s = map (\<lambda>c. if CHR ''A'' \<le> c \<and> c \<le> CHR ''Z'' then char_of (of_char c + (32::nat)) else c) s"

text \<open>\<^verbatim>\<open>re.sub("^ *appstore *", "", line)\<close>.\<close>

definition sub_appstore :: "string \<Rightarrow> string" where
  "sub_appstore line =
     (if startswith (skip_spaces line) ''appstore''
      then skip_spaces (drop 8 (skip_spaces line)) else line)"

subsection \<open>The reader\<close>

text \<open>
  The state of a \<^verbatim>\<open>read\<close>: the document, the process-wide \<^verbatim>\<open>opt["form"]\<close> and the
  local flag \<^verbatim>\<open>is_ignore\<close>.
\<close>

record reader =
  doc :: brew_info
  form :: string
  is_ignore :: bool

definition detect :: "string \<Rightarrow> reader \<Rightarrow> reader" where
  "detect f s = (if form s = ''none'' then s\<lparr>form := f\<rparr> else s)"

definition add_pack :: "string \<Rightarrow> string \<Rightarrow> brew_info \<Rightarrow> brew_info" where
  "add_pack p opt b =
     b\<lparr>brew_input := brew_input b @ [p], brew_input_opt := (brew_input_opt b)(p \<mapsto> opt)\<rparr>"

text \<open>
  The directive dispatch: \<open>cmd\<close> and \<open>p\<close> are the first and second normalised words,
  \<open>opt\<close> the options string. Only the comma form of \<^verbatim>\<open>mas\<close> can raise here, when the
  line has fewer than four words.
\<close>

definition dispatch ::
  "'w env \<Rightarrow> 'w \<Rightarrow> string \<Rightarrow> string \<Rightarrow> string \<Rightarrow> string \<Rightarrow> reader \<Rightarrow> unit outcome \<times> reader" where
  "dispatch E w line cmd p opt s =
     (let b = doc s; excmd = py_strip (py_join '' '' (tl (py_split line))) in
      if cmd = ''brew'' \<or> cmd = ''install'' then (Return (), s\<lparr>doc := add_pack p opt b\<rparr>)
      else if cmd = ''tap'' then (Return (), s\<lparr>doc := b\<lparr>tap_input := tap_input b @ [p]\<rparr>\<rparr>)
      else if cmd = ''tapall'' then
        (Return (),
         s\<lparr>doc := (foldl (\<lambda>d tp. add_pack tp [] d) (b\<lparr>tap_input := tap_input b @ [p]\<rparr>)
                      (get_tap_packs E w p))
                   \<lparr>cask_input := cask_input b @ get_tap_casks E w p\<rparr>\<rparr>)
      else if cmd = ''cask'' then (Return (), s\<lparr>doc := b\<lparr>cask_input := cask_input b @ [p]\<rparr>\<rparr>)
      else if cmd = ''mas'' \<and> CHR '','' \<in> set line then
        (let s1 = detect ''bundle'' s in
         case py_split line of
           w0 # w1 # w2 # pid # ws \<Rightarrow>
             (Return (),
              s1\<lparr>doc := b\<lparr>appstore_input := appstore_input b
                   @ [pid @ '' '' @ strip_chars [CHR 0x22] (strip_chars [CHR 0x27] (strip_chars '','' w1))]\<rparr>\<rparr>)
         | ws \<Rightarrow> (Raise IndexError, s1))
      else if cmd = ''appstore'' \<or> cmd = ''mas'' then
        (Return (),
         s\<lparr>doc := b\<lparr>appstore_input := appstore_input b
              @ [strip_chars [CHR 0x22] (strip_chars [CHR 0x27] (py_strip (sub_appstore line)))]\<rparr>\<rparr>)
      else if cmd = ''main'' then
        (Return (), s\<lparr>doc := b\<lparr>main_input := main_input b @ [p], file_input := file_input b @ [p]\<rparr>\<rparr>)
      else if cmd = ''file'' \<or> lower cmd = ''brewfile'' then
        (Return (), s\<lparr>doc := b\<lparr>file_input := file_input b @ [p]\<rparr>\<rparr>)
      else if cmd = ''before'' then
        (Return (), s\<lparr>doc := b\<lparr>before_input := before_input b @ [excmd]\<rparr>\<rparr>)
      else if cmd = ''after'' then
        (Return (), s\<lparr>doc := b\<lparr>after_input := after_input b @ [excmd]\<rparr>\<rparr>)
      else (Return (), s\<lparr>doc := b\<lparr>cmd_input := cmd_input b @ [py_strip line]\<rparr>\<rparr>))"

text \<open>
  The part of the loop body after the ignore, blank and comment tests. \<^verbatim>\<open>args[0]\<close> is an
  \<^verbatim>\<open>IndexError\<close> when the line has no word left.
\<close>

definition parse_line :: "'w env \<Rightarrow> 'w \<Rightarrow> string \<Rightarrow> reader \<Rightarrow> unit outcome \<times> reader" where
  "parse_line E w line s =
     (case line_args line of
        [] \<Rightarrow> (Raise IndexError, s)
      | a # as \<Rightarrow>
          (let args = norm_args (a # as);
               cmd = hd args;
               p = (case tl args of [] \<Rightarrow> [] | x # xs \<Rightarrow> x);
               s1 = (if norm_fired (a # as) then detect ''cmd'' s else s);
               s2 = (if has_args_word args then detect ''bundle'' s1 else s1);
               s3 = (if (cmd = ''brew'' \<or> cmd = ''tap'' \<or> cmd = ''tapall'')
                        \<and> (CHR 0x22 \<in> set line \<or> CHR 0x27 \<in> set line)
                     then detect ''bundle'' s2 else s2)
           in dispatch E w line cmd p (line_opt args) s3))"

definition read_line :: "'w env \<Rightarrow> 'w \<Rightarrow> string \<Rightarrow> reader \<Rightarrow> unit outcome \<times> reader" where
  "read_line E w line s =
     (let s1 = (if is_endignore line then s\<lparr>is_ignore := False\<rparr> else s);
          s2 = (if is_ignore_mark line then s1\<lparr>is_ignore := True\<rparr> else s1)
      in if is_ignore s2 then (Return (), s2)
         else if is_blank line \<or> is_comment line then (Return (), s2)
         else parse_line E w line s2)"

definition clear_input :: "brew_info \<Rightarrow> brew_info" where
  "clear_input b =
     b\<lparr>brew_input_opt := Map.empty, brew_input := [], tap_input := [], cask_input := [],
       appstore_input := [], main_input := [], file_input := [], before_input := [],
       after_input := [], cmd_input := []\<rparr>"

text \<open>
  \<^verbatim>\<open>read\<close>: the file is \<open>None\<close> when it cannot be opened (the method then returns
  with the inputs cleared), otherwise its lines. The result is the outcome with the
  document and the format as the method leaves them, also when it raises.
\<close>

definition read ::
  "'w env \<Rightarrow> 'w \<Rightarrow> string list option \<Rightarrow> brew_info \<Rightarrow> string \<Rightarrow> unit outcome \<times> reader" where
  "read E w file b f =
     (case file of
        None \<Rightarrow> (Return (), \<lparr>doc = clear_input b, form = f, is_ignore = False\<rparr>)
      | Some lines \<Rightarrow>
          for_each (read_line E w) lines
            \<lparr>doc = (clear_input b)\<lparr>tap_input := [''direct'']\<rparr>, form = f, is_ignore = False\<rparr>)"

text \<open>\<^verbatim>\<open>f.readlines()\<close>: the text cut after each line break.\<close>

fun readlines_from :: "string \<Rightarrow> string \<Rightarrow> string list" where
  "readlines_from cur [] = (if cur = [] then [] else [cur])"
| "readlines_from cur (c # cs) =
     (if c = CHR 0x0A then (cur @ [c]) # readlines_from [] cs else readlines_from (cur @ [c]) cs)"

definition readlines :: "string \<Rightarrow> string list" where
  "readlines text = readlines_from [] text"

section \<open>BrewInfo.write: serialising a document\<close>

text \<open>The options of \<^verbatim>\<open>self.helper.opt\<close> that \<^verbatim>\<open>write\<close> and \<^verbatim>\<open>sort\<close> read.\<close>

record write_opt =
  w_form :: string
  w_caskonly :: bool
  w_appstore :: int
  w_cask_repo :: string

definition is_bundle :: "string \<Rightarrow> bool" where
  "is_bundle f = (f = ''brewdler'' \<or> f = ''bundle'')"

definition is_command :: "string \<Rightarrow> bool" where
  "is_command f = (f = ''command'' \<or> f = ''cmd'')"

definition nl :: string where
  "nl = [CHR 0x0A]"

definition quote :: string where
  "quote = [CHR 0x27]"

text \<open>\<^verbatim>\<open>convert_option\<close>, \<^verbatim>\<open>packout\<close> and \<^verbatim>\<open>mas_pack\<close>.\<close>

definition sub_dashes :: "string \<Rightarrow> string" where
  "sub_dashes x = (if startswith x ''--'' then drop 2 x else x)"

definition convert_option :: "string \<Rightarrow> string \<Rightarrow> string" where
  "convert_option f opt =
     (if opt \<noteq> [] \<and> is_bundle f
      then '', args: ['' @ py_join '', '' (map (\<lambda>x. quote @ sub_dashes x @ quote) (py_split opt)) @ '']''
      else opt)"

definition packout :: "string \<Rightarrow> string \<Rightarrow> string" where
  "packout f pack = (if is_bundle f then quote @ pack @ quote else pack)"

definition mas_pack :: "string \<Rightarrow> string \<Rightarrow> string outcome" where
  "mas_pack f pack =
     (if is_bundle f then
        (case py_split pack of
           [] \<Rightarrow> Raise IndexError
         | pid # name \<Rightarrow> Return (quote @ py_join '' '' name @ quote @ '', id: '' @ pid))
      else Return pack)"

text \<open>The directive words of each format, and the preamble of the command format.\<close>

definition cmd_before :: "string \<Rightarrow> string" where
  "cmd_before f = (if is_bundle f then ''#before '' else if is_command f then [] else ''before '')"

definition cmd_after :: "string \<Rightarrow> string" where
  "cmd_after f = (if is_bundle f then ''#after '' else if is_command f then [] else ''after '')"

definition cmd_other :: "string \<Rightarrow> string" where
  "cmd_other f = (if is_bundle f then ''#'' else [])"

definition cmd_install :: "string \<Rightarrow> string" where
  "cmd_install f = (if is_bundle f then ''brew '' else if is_command f then ''brew install '' else ''brew '')"

definition cmd_tap :: "string \<Rightarrow> string" where
  "cmd_tap f = (if is_bundle f then ''tap '' else if is_command f then ''brew tap '' else ''tap '')"

definition cmd_cask :: "string \<Rightarrow> string" where
  "cmd_cask f = (if is_bundle f then ''cask '' else if is_command f then ''brew install '' else ''cask '')"

definition cmd_cask_nocask :: "string \<Rightarrow> string" where
  "cmd_cask_nocask f =
     (if is_bundle f then ''#cask '' else if is_command f then ''#brew install '' else ''#cask '')"

definition cmd_appstore :: "string \<Rightarrow> string" where
  "cmd_appstore f =
     (if is_bundle f then ''mas '' else if is_command f then ''mas purchase '' else ''appstore '')"

definition cmd_main :: "string \<Rightarrow> string" where
  "cmd_main f = (if is_bundle f \<or> is_command f then ''#main '' else ''main '')"

definition cmd_file :: "string \<Rightarrow> string" where
  "cmd_file f = (if is_bundle f \<or> is_command f then ''#file '' else ''file '')"

definition output_prefix :: "string \<Rightarrow> string" where
  "output_prefix f =
     (if \<not> is_bundle f \<and> is_command f then
        ''#!/usr/bin/env bash'' @ nl @ nl
        @ ''#BREWFILE_IGNORE'' @ nl
        @ ''if ! which brew >& /dev/null;then'' @ nl
        @ ''  brew_installed=0'' @ nl
        @ ''  echo Homebrew is not installed!'' @ nl
        @ ''  echo Install now...'' @ nl
        @ ''  echo /bin/bash -c '' @ [CHR 0x5C, CHR 0x22, CHR 0x5C] @ ''$'' @ [CHR 0x5C] @ ''(curl -fsSL'' @ nl
        @ ''https://raw.githubusercontent.com/Homebrew/'' @ nl
        @ ''install/master/install.sh'' @ [CHR 0x5C] @ '')'' @ [CHR 0x5C]
        @ ''  /bin/bash -c '' @ [CHR 0x22] @ ''$(curl -fsSL'' @ nl
        @ ''https://raw.githubusercontent.com/Homebrew/'' @ nl
        @ ''install/master/install.sh)  echo'' @ nl
        @ ''fi'' @ nl
        @ ''#BREWFILE_ENDIGNORE'' @ nl @ nl
      else [])"

subsection \<open>BrewInfo.sort\<close>

text \<open>
  The key of the store-app sort is the second word in lower case, or the first word when
  there is one word only; an entry with no word is an \<^verbatim>\<open>IndexError\<close>.
\<close>

definition appstore_key :: "string \<Rightarrow> string" where
  "appstore_key x =
     (case py_split x of [] \<Rightarrow> [] | [a] \<Rightarrow> a | a # b # r \<Rightarrow> lower b)"

definition sort_taps :: "string \<Rightarrow> string list \<Rightarrow> string list" where
  "sort_taps cask_repo taps =
     filter (\<lambda>t. t = ''homebrew/core'') taps
     @ sort (filter (\<lambda>t. t \<noteq> ''homebrew/core'' \<and> t \<noteq> cask_repo \<and> startswith t ''homebrew/'') taps)
     @ filter (\<lambda>t. t \<noteq> ''homebrew/core'' \<and> t = cask_repo) taps
     @ sort (filter (\<lambda>t. t \<noteq> ''homebrew/core'' \<and> t \<noteq> cask_repo
                          \<and> \<not> startswith t ''homebrew/'') taps)"

definition sort_doc :: "write_opt \<Rightarrow> brew_info \<Rightarrow> brew_info outcome" where
  "sort_doc wo b =
     (if list_ex (\<lambda>x. py_split x = []) (appstore_list b) then Raise IndexError
      else Return
        (b\<lparr>tap_list := sort_taps (w_cask_repo wo) (tap_list b),
           brew_list := sort (brew_list b), brew_full_list := sort (brew_full_list b),
           cask_list := sort (cask_list b), main_list := sort (main_list b),
           file_list := sort (file_list b), cask_nocask_list := sort (cask_nocask_list b),
           appstore_list := sort_key appstore_key (appstore_list b)\<rparr>))"

subsection \<open>The tap section\<close>

text \<open>
  The writer of the tap section carries the text so far, the flag \<^verbatim>\<open>isfirst\<close> and the
  document, whose \<^verbatim>\<open>brew_list\<close>, \<^verbatim>\<open>brew_list_opt\<close> and \<^verbatim>\<open>cask_list\<close> lose each
  entry that is written under its tap.
\<close>

definition first_tap_pack_write :: "string \<Rightarrow> bool \<Rightarrow> bool \<Rightarrow> bool \<Rightarrow> string \<Rightarrow> string" where
  "first_tap_pack_write f isfirst direct_first isfirst_pack tap =
     (if isfirst then nl @ ''# tap repositories and their packages'' @ nl else [])
     @ (if \<not> direct_first \<and> isfirst_pack then nl @ cmd_tap f @ packout f tap @ nl else [])"

fun write_tap_packs ::
  "string \<Rightarrow> string list \<Rightarrow> string list \<Rightarrow> string \<times> bool \<times> brew_info
     \<Rightarrow> (string \<times> bool \<times> brew_info) outcome" where
  "write_tap_packs f tap_packs [] st = Return st"
| "write_tap_packs f tap_packs (p # ps) (out, direct_first, b) =
     (if replace ''.rb'' [] (last (split_on CHR ''/'' p)) \<in> set tap_packs then
        (case brew_list_opt b p of
           None \<Rightarrow> Raise KeyError
         | Some opt \<Rightarrow>
             (case list_remove p (brew_list b) of
                Raise e \<Rightarrow> Raise e
              | SysExit n \<Rightarrow> SysExit n
              | Return bl \<Rightarrow>
                  write_tap_packs f tap_packs ps
                    (out @ (if direct_first then nl @ ''## Direct install'' @ nl else [])
                       @ cmd_install f @ packout f p @ convert_option f opt @ nl,
                     False,
                     b\<lparr>brew_list := bl, brew_list_opt := (brew_list_opt b)(p := None)\<rparr>)))
      else write_tap_packs f tap_packs ps (out, direct_first, b))"

fun write_tap_casks ::
  "string \<Rightarrow> string \<Rightarrow> string list \<Rightarrow> string list \<Rightarrow> string \<times> bool \<times> bool \<times> brew_info
     \<Rightarrow> (string \<times> bool \<times> bool \<times> brew_info) outcome" where
  "write_tap_casks f t tap_casks [] st = Return st"
| "write_tap_casks f t tap_casks (p # ps) (out, isfirst, isfirst_pack, b) =
     (if p \<in> set tap_casks then
        (case list_remove p (cask_list b) of
           Raise e \<Rightarrow> Raise e
         | SysExit n \<Rightarrow> SysExit n
         | Return cl \<Rightarrow>
             write_tap_casks f t tap_casks ps
               (out @ first_tap_pack_write f isfirst False isfirst_pack t
                  @ cmd_cask f @ packout f p @ nl,
                False, False, b\<lparr>cask_list := cl\<rparr>))
      else write_tap_casks f t tap_casks ps (out, isfirst, isfirst_pack, b))"

definition write_tap ::
  "'w env \<Rightarrow> 'w \<Rightarrow> write_opt \<Rightarrow> string \<Rightarrow> string \<times> bool \<times> brew_info
     \<Rightarrow> (string \<times> bool \<times> brew_info) outcome" where
  "write_tap E w wo t st =
     (case st of (out, isfirst, b) \<Rightarrow>
      let tap_packs = get_tap_packs E w t in
      if t = ''direct'' \<and> tap_packs = [] then Return st
      else
        (case (if \<not> w_caskonly wo then
                 (case write_tap_packs (w_form wo) tap_packs (brew_list b)
                         (out @ first_tap_pack_write (w_form wo) isfirst (t = ''direct'') True t,
                          t = ''direct'', b) of
                    Raise e \<Rightarrow> Raise e
                  | SysExit n \<Rightarrow> SysExit n
                  | Return (out1, d, b1) \<Rightarrow> Return (out1, False, False, b1))
               else Return (out, isfirst, True, b)) of
           Raise e \<Rightarrow> Raise e
         | SysExit n \<Rightarrow> SysExit n
         | Return (out1, isfirst1, isfirst_pack1, b1) \<Rightarrow>
             if \<not> is_mac E then Return (out1, isfirst1, b1)
             else
               (case write_tap_casks (w_form wo) t (get_tap_casks E w t) (cask_list b1)
                       (out1, isfirst1, isfirst_pack1, b1) of
                  Raise e \<Rightarrow> Raise e
                | SysExit n \<Rightarrow> SysExit n
                | Return (out2, isfirst2, isfirst_pack2, b2) \<Rightarrow> Return (out2, isfirst2, b2))))"

fun write_taps ::
  "'w env \<Rightarrow> 'w \<Rightarrow> write_opt \<Rightarrow> string list \<Rightarrow> string \<times> bool \<times> brew_info
     \<Rightarrow> (string \<times> bool \<times> brew_info) outcome" where
  "write_taps E w wo [] st = Return st"
| "write_taps E w wo (t # ts) st =
     (case write_tap E w wo t st of
        Raise e \<Rightarrow> Raise e
      | SysExit n \<Rightarrow> SysExit n
      | Return st' \<Rightarrow> write_taps E w wo ts st')"

subsection \<open>The other sections and the whole of write\<close>

definition section_lines :: "string \<Rightarrow> string list \<Rightarrow> string" where
  "section_lines word xs = concat (map (\<lambda>x. word @ x @ nl) xs)"

definition before_section :: "string \<Rightarrow> string list \<Rightarrow> string" where
  "before_section f cs =
     (if cs \<noteq> [] then ''# Before commands'' @ nl @ section_lines (cmd_before f) cs else [])"

fun brew_section :: "string \<Rightarrow> (string \<rightharpoonup> string) \<Rightarrow> string list \<Rightarrow> string outcome" where
  "brew_section f opts [] = Return []"
| "brew_section f opts (p # ps) =
     (case opts p of
        None \<Rightarrow> Raise KeyError
      | Some opt \<Rightarrow>
          (case brew_section f opts ps of
             Raise e \<Rightarrow> Raise e
           | SysExit n \<Rightarrow> SysExit n
           | Return rest \<Rightarrow> Return (cmd_install f @ packout f p @ convert_option f opt @ nl @ rest)))"

fun appstore_section :: "string \<Rightarrow> string list \<Rightarrow> string outcome" where
  "appstore_section f [] = Return []"
| "appstore_section f (a # as) =
     (case mas_pack f a of
        Raise e \<Rightarrow> Raise e
      | SysExit n \<Rightarrow> SysExit n
      | Return x \<Rightarrow>
          (case appstore_section f as of
             Raise e \<Rightarrow> Raise e
           | SysExit n \<Rightarrow> SysExit n
           | Return rest \<Rightarrow> Return (cmd_appstore f @ x @ nl @ rest)))"

definition other_commands :: "string \<Rightarrow> string list \<Rightarrow> string" where
  "other_commands f cs =
     (if cs \<noteq> [] then nl @ ''# Other commands'' @ nl @ section_lines (cmd_other f) cs else [])"

definition after_section :: "string \<Rightarrow> string list \<Rightarrow> string" where
  "after_section f cs =
     (if cs \<noteq> [] then nl @ ''# After commands'' @ nl @ section_lines (cmd_after f) cs else [])"

text \<open>
  \<open>write_doc\<close> is \<^verbatim>\<open>BrewInfo.write\<close>: it gives the text written to the file (\<open>None\<close> when the body is empty and
  nothing is written) and the document with its lists sorted and reduced. The final
  \<^verbatim>\<open>chmod\<close> of the file is not part of the model.
\<close>

definition write_doc ::
  "'w env \<Rightarrow> 'w \<Rightarrow> write_opt \<Rightarrow> brew_info \<Rightarrow> (string option \<times> brew_info) outcome" where
  "write_doc E w wo b0 =
     (let f = w_form wo in
      case sort_doc wo b0 of
        Raise e \<Rightarrow> Raise e
      | SysExit n \<Rightarrow> SysExit n
      | Return b1 \<Rightarrow>
     (case write_taps E w wo (tap_list b1) (before_section f (before_input b1), True, b1) of
        Raise e \<Rightarrow> Raise e
      | SysExit n \<Rightarrow> SysExit n
      | Return (out1, isfirst, b2) \<Rightarrow>
     (case (if \<not> w_caskonly wo \<and> brew_list b2 \<noteq> [] then brew_section f (brew_list_opt b2) (brew_list b2)
            else Return []) of
        Raise e \<Rightarrow> Raise e
      | SysExit n \<Rightarrow> SysExit n
      | Return brews \<Rightarrow>
     (case (if is_mac E \<and> w_appstore wo \<noteq> 0 \<and> appstore_list b2 \<noteq> []
            then appstore_section f (appstore_list b2) else Return []) of
        Raise e \<Rightarrow> Raise e
      | SysExit n \<Rightarrow> SysExit n
      | Return apps \<Rightarrow>
          (let output =
                 out1
                 @ (if \<not> w_caskonly wo \<and> brew_list b2 \<noteq> []
                    then nl @ ''# Other Homebrew packages'' @ nl @ brews else [])
                 @ (if is_mac E \<and> cask_list b2 \<noteq> []
                    then nl @ ''# Other Cask applications'' @ nl
                         @ section_lines (cmd_cask f) (map (packout f) (cask_list b2))
                    else [])
                 @ (if is_mac E \<and> cask_nocask_list b2 \<noteq> []
                    then nl @ ''# Below applications were installed by Cask,'' @ nl
                         @ ''# but do not have corresponding casks.'' @ nl @ nl
                         @ section_lines (cmd_cask_nocask f) (map (packout f) (cask_nocask_list b2))
                    else [])
                 @ (if is_mac E \<and> w_appstore wo \<noteq> 0 \<and> appstore_list b2 \<noteq> []
                    then nl @ ''# App Store applications'' @ nl @ apps else [])
                 @ (if main_list b2 \<noteq> []
                    then nl @ ''# Main file'' @ nl
                         @ section_lines (cmd_main f) (map (packout f) (main_list b2))
                    else [])
                 @ (if length (file_list b2) > length (main_list b2)
                    then nl @ ''# Additional files'' @ nl
                         @ section_lines (cmd_file f)
                             (map (packout f) (filter (\<lambda>x. x \<notin> set (main_list b2)) (file_list b2)))
                    else [])
                 @ other_commands f (cmd_input b2)
                 @ after_section f (after_input b2)
           in Return (if output \<noteq> [] then Some (output_prefix f @ output) else None, b2))))))"

text \<open>
  Reading a text, copying the inputs to the lists and writing the document, as
  \<^verbatim>\<open>read_all\<close>, \<^verbatim>\<open>input_to_list\<close> and \<^verbatim>\<open>write\<close> do in turn; the result is the
  written text. \<open>entries\<close> are the inputs of a document as sets, one per domain.
\<close>

definition read_text :: "'w env \<Rightarrow> 'w \<Rightarrow> string \<Rightarrow> string \<Rightarrow> unit outcome \<times> reader" where
  "read_text E w text f = read E w (Some (readlines text)) (BrewInfo ''Brewfile'') f"

definition write_read ::
  "'w env \<Rightarrow> 'w \<Rightarrow> write_opt \<Rightarrow> reader \<Rightarrow> string option outcome" where
  "write_read E w wo s =
     (case write_doc E w (wo\<lparr>w_form := form s\<rparr>) (input_to_list (doc s)) of
        Raise e \<Rightarrow> Raise e
      | SysExit n \<Rightarrow> SysExit n
      | Return (text, b) \<Rightarrow> Return text)"

subsection \<open>Directive words and test manifests\<close>




definition command_text :: string where
  "command_text = ''brew cask install firefox'' @ nl"

definition ignore_text :: "string list" where
  "ignore_text =
     [''#BREWFILE_IGNORE'' @ nl, ''brew vim'' @ nl, ''#BREWFILE_ENDIGNORE'' @ nl, ''brew git'' @ nl]"

definition entries :: "brew_info \<Rightarrow> (string set \<times> string set \<times> string set \<times> string set) \<times>
    (string set \<times> string set \<times> string set \<times> string set)" where
  "entries b =
     ((set (brew_input b), set (tap_input b), set (cask_input b), set (appstore_input b)),
      (set (file_input b), set (before_input b), set (after_input b), set (cmd_input b)))"

text \<open>
  Writing what was read and reading the written text again, with the format the first
  read left in \<^verbatim>\<open>opt["form"]\<close>; \<open>None\<close> when \<^verbatim>\<open>write\<close> fails or writes nothing.
\<close>

definition round_trip ::
  "'w env \<Rightarrow> 'w \<Rightarrow> write_opt \<Rightarrow> reader \<Rightarrow> (unit outcome \<times> reader) option" where
  "round_trip E w wo s =
     (case write_read E w wo s of
        Return (Some text) \<Rightarrow> Some (read_text E w text (form s))
      | Return None \<Rightarrow> None
      | Raise e \<Rightarrow> None
      | SysExit n \<Rightarrow> None)"


section \<open>Entry sets and the round trip\<close>

text \<open>
  A manifest entry is a domain with an identifier; options and the source document are
  not part of its identity. \<open>entry_set\<close> is the set of the entries a document declares
  (a \<^verbatim>\<open>main\<close> directive declares its file in both lists).
\<close>

datatype domain =
  Package | Repository | Gui_package | Store_app | Included_file | Main_file
  | Before_command | After_command | Raw_command

definition entry_set :: "brew_info \<Rightarrow> (domain \<times> string) set" where
  "entry_set b =
     Pair Package ` set (brew_input b) \<union> Pair Repository ` set (tap_input b)
     \<union> Pair Gui_package ` set (cask_input b) \<union> Pair Store_app ` set (appstore_input b)
     \<union> Pair Included_file ` set (file_input b) \<union> Pair Main_file ` set (main_input b)
     \<union> Pair Before_command ` set (before_input b) \<union> Pair After_command ` set (after_input b)
     \<union> Pair Raw_command ` set (cmd_input b)"

text \<open>
  \<open>run_text\<close> is the loop of \<^verbatim>\<open>read\<close> over the lines of a text, from a given reader
  state. A text \<open>adds\<close> a set of entries when it is empty or ends with a line break and,
  from every state outside an ignore block, the loop over it returns normally, outside an
  ignore block, with exactly these entries added to the document's entry set.
\<close>

definition run_text :: "'w env \<Rightarrow> 'w \<Rightarrow> string \<Rightarrow> reader \<Rightarrow> unit outcome \<times> reader" where
  "run_text E w text s = for_each (read_line E w) (readlines text) s"

definition adds :: "'w env \<Rightarrow> 'w \<Rightarrow> string \<Rightarrow> (domain \<times> string) set \<Rightarrow> bool" where
  "adds E w text es =
     ((text = [] \<or> last text = CHR 0x0A)
      \<and> (\<forall>s. \<not> is_ignore s \<longrightarrow>
             fst (run_text E w text s) = Return ()
           \<and> \<not> is_ignore (snd (run_text E w text s))
           \<and> entry_set (doc (snd (run_text E w text s))) = entry_set (doc s) \<union> es))"

text \<open>
  The line \<^verbatim>\<open>write\<close> emits for each kind of entry, and what it means for the entries
  of a document to be stable in a format: each of these lines, read alone, adds the entry
  it was written for. \<open>files_ok\<close> is the relation between the two file lists that
  \<^verbatim>\<open>read\<close> maintains.
\<close>

definition stable_entries :: "'w env \<Rightarrow> 'w \<Rightarrow> string \<Rightarrow> brew_info \<Rightarrow> bool" where
  "stable_entries E w f d =
     ((\<forall>p \<in> set (brew_input d). \<forall>opt. brew_input_opt d p = Some opt \<longrightarrow>
          adds E w (cmd_install f @ packout f p @ convert_option f opt @ nl) {(Package, p)})
      \<and> (\<forall>t \<in> set (tap_input d). t \<noteq> ''direct'' \<longrightarrow>
          adds E w (nl @ cmd_tap f @ packout f t @ nl) {(Repository, t)})
      \<and> (\<forall>c \<in> set (cask_input d).
          adds E w (cmd_cask f @ packout f c @ nl) {(Gui_package, c)})
      \<and> (\<forall>a \<in> set (appstore_input d). \<forall>x. mas_pack f a = Return x \<longrightarrow>
          adds E w (cmd_appstore f @ x @ nl) {(Store_app, a)})
      \<and> (\<forall>m \<in> set (main_input d).
          adds E w (cmd_main f @ packout f m @ nl) {(Main_file, m), (Included_file, m)})
      \<and> (\<forall>x \<in> set (file_input d). x \<notin> set (main_input d) \<longrightarrow>
          adds E w (cmd_file f @ packout f x @ nl) {(Included_file, x)})
      \<and> (\<forall>c \<in> set (before_input d). adds E w (cmd_before f @ c @ nl) {(Before_command, c)})
      \<and> (\<forall>c \<in> set (after_input d). adds E w (cmd_after f @ c @ nl) {(After_command, c)})
      \<and> (\<forall>c \<in> set (cmd_input d). adds E w (cmd_other f @ c @ nl) {(Raw_command, c)}))"

definition files_ok :: "brew_info \<Rightarrow> bool" where
  "files_ok d =
     (set (main_input d) \<subseteq> set (file_input d)
      \<and> ((\<exists>x \<in> set (file_input d). x \<notin> set (main_input d)) \<longrightarrow>
           length (main_input d) < length (file_input d)))"

section \<open>Properties of install\<close>

subsection \<open>Sequencing and the command executor\<close>

lemma and_then_Return [simp]: "and_then (Return a, s) f = f a s"
  by (simp add: and_then_def)

lemma and_then_Raise [simp]: "and_then (Raise e, s) f = (Raise e, s)"
  by (simp add: and_then_def)

lemma and_then_SysExit [simp]: "and_then (SysExit n, s) f = (SysExit n, s)"
  by (simp add: and_then_def)



lemma proc_nonzero_exits:
  "run E (world s) cmd = (Exited ret lines, w') \<Longrightarrow> ret \<noteq> 0 \<Longrightarrow>
     fst (proc E cmd True s) = SysExit ret"
  by (simp add: proc_def Let_def)

subsection \<open>The package loop\<close>










text \<open>
  A package command that ends with a non-zero status ends the process: \<^verbatim>\<open>proc\<close> is
  called with its default \<^verbatim>\<open>exit_on_err\<close>, so the branch of the loop body that logs the
  warning and continues is never reached.
\<close>

lemma install_brew_failure_exits:
  assumes "get_dict brew_input_opt s p = Some io"
    and "brew_cmd_for p s = Return (Some cmd)"
    and "run E (world s) (Sh (''brew '' @ cmd @ '' '' @ p @ io)) = (Exited ret lines, w')"
    and "ret \<noteq> 0"
  shows "fst (install_brew E p s) = SysExit ret"
  using assms by (simp add: install_brew_def proc_def Let_def)

text \<open>
  Claim C5, evaluated on the code. The manifest declares the packages \<^verbatim>\<open>a\<close> and
  \<^verbatim>\<open>b\<close>, none is installed, and \<^verbatim>\<open>brew install a\<close> ends with status 1. Then
  \<^verbatim>\<open>install\<close> ends the process with status 1 after that one command: no warning is
  logged and \<^verbatim>\<open>b\<close> is never tried.
\<close>

theorem install_failing_package_exits:
  "fst (install failing_env (BrewFile two_packages_doc)) = SysExit 1
   \<and> trace (snd (install failing_env (BrewFile two_packages_doc))) = [Proc (Sh ''brew install a'')]"
  by code_simp

subsection \<open>The store-app loop\<close>

text \<open>
  Claim C7, evaluated on the code. The manifest declares \<^verbatim>\<open>123456789 Foo\<close> and the
  machine reports \<^verbatim>\<open>123456789 Bar\<close>: the same numeric id under another name. The
  store-app loop of \<^verbatim>\<open>install\<close> compares names only and purchases the application
  again, while the matching of \<^verbatim>\<open>cleanup\<close> takes the two entries for the same
  application because the ids agree.
\<close>

theorem install_same_id_purchases:
  "trace (snd (install quiet_env (BrewFile (appstore_doc ''123456789 Foo'' ''123456789 Bar''))))
     = [Info ''Installing Foo'', Proc (Sh ''mas purchase 123456789'')]
   \<and> cleanup_appstore_isinput ''123456789 Bar''
        (BrewFile (appstore_doc ''123456789 Foo'' ''123456789 Bar'')) = Return True"
  by code_simp

text \<open>
  Claim C8, evaluated on the code. The manifest declares \<^verbatim>\<open>123456789 Foo\<close> and the
  machine reports \<^verbatim>\<open>123456789 Foo (2.1)\<close>. The store-app loop of \<^verbatim>\<open>install\<close> does not
  cut the version off the reported name, finds no match and purchases the application,
  while the matching of \<^verbatim>\<open>cleanup\<close> cuts the version off and finds the match, with or
  without the id.
\<close>

theorem install_version_suffix_purchases:
  "trace (snd (install quiet_env
                (BrewFile (appstore_doc ''123456789 Foo'' ''123456789 Foo (2.1)''))))
     = [Info ''Installing Foo'', Proc (Sh ''mas purchase 123456789'')]
   \<and> cleanup_appstore_isinput ''123456789 Foo (2.1)''
        (BrewFile (appstore_doc ''123456789 Foo'' ''123456789 Foo (2.1)'')) = Return True
   \<and> cleanup_appstore_isinput ''Foo (2.1)''
        (BrewFile (appstore_doc ''Foo'' ''Foo (2.1)'')) = Return True"
  by code_simp

section \<open>Properties of clean_list\<close>

lemma remove_each_append:
  "\<forall>x \<in> set pre. \<not> cond x \<Longrightarrow>
     remove_each cond ps (pre @ ps) = Return (pre @ filter (\<lambda>x. \<not> cond x) ps)"
proof (induction ps arbitrary: pre)
  case Nil
  then show ?case by simp
next
  case (Cons p ps)
  show ?case
  proof (cases "cond p")
    case True
    with Cons.prems have "p \<notin> set pre" by blast
    then have "remove1 p (pre @ p # ps) = pre @ ps" by (simp add: remove1_append)
    with True Cons.IH [OF Cons.prems] show ?thesis by (simp add: list_remove_def)
  next
    case False
    with Cons.prems have "\<forall>x \<in> set (pre @ [p]). \<not> cond x" by simp
    from Cons.IH [OF this] False show ?thesis by simp
  qed
qed

lemma remove_each_self: "remove_each cond xs xs = Return (filter (\<lambda>x. \<not> cond x) xs)"
  using remove_each_append [of "[]" cond xs] by simp

lemma clean_input_eq:
  "clean_input root b =
     Return (b\<lparr>brew_input := filter (\<lambda>p. p \<in> set (brew_list root)) (brew_input b),
               tap_input := filter (\<lambda>p. p \<in> set (tap_list root)) (tap_input b),
               cask_input := filter (\<lambda>p. p \<in> set (cask_list root)) (cask_input b),
               appstore_input := filter (\<lambda>p. p \<in> set (appstore_list root)) (appstore_input b)\<rparr>)"
  by (simp add: clean_input_def remove_each_self)

lemma clean_inputs_eq: "clean_inputs root bs = Return (map (\<lambda>b. case clean_input root b of Return b' \<Rightarrow> b' | Raise e \<Rightarrow> b | SysExit n \<Rightarrow> b) bs)"
  by (induction bs) (simp_all add: clean_input_eq)

lemma clean_all_inputs_returns: "\<exists>s1. clean_all_inputs s = Return s1"
  by (simp add: clean_all_inputs_def clean_inputs_eq clean_input_eq split: option.splits)

lemma brewinfo_main_update_main: "brewinfo_main (update_main f s) = f (brewinfo_main s)"
  by (simp add: brewinfo_main_def update_main_def split: option.splits)

lemma brewinfo_ext_update_main: "brewinfo_ext (update_main f s) = brewinfo_ext s"
  by (simp add: brewinfo_ext_def update_main_def split: option.splits)

lemma brewinfo_main_update_ext: "brewinfo_main (update_ext f s) = brewinfo_main s"
  by (simp add: brewinfo_main_def update_ext_def split: option.splits)

lemma brewinfo_ext_update_ext: "brewinfo_ext (update_ext f s) = map f (brewinfo_ext s)"
  by (simp add: brewinfo_ext_def update_ext_def split: option.splits)

lemma dedup_main_eq:
  "dedup_main s =
     Return (update_main
               (\<lambda>m. m\<lparr>brew_list := filter (\<lambda>p. p \<notin> set (get_only_ext brew_input s))
                                      (brew_list (brewinfo_main s)),
                       cask_list := filter (\<lambda>p. p \<notin> set (get_only_ext cask_input s))
                                      (cask_list (brewinfo_main s)),
                       cask_nocask_list := filter (\<lambda>p. p \<notin> set (get_only_ext cask_input s))
                                      (cask_nocask_list (brewinfo_main s)),
                       appstore_list := filter (\<lambda>p. p \<notin> set (get_only_ext appstore_input s))
                                      (appstore_list (brewinfo_main s))\<rparr>) s)"
  by (simp add: dedup_main_def Let_def remove_each_self)

text \<open>
  Claim C4. \<^verbatim>\<open>clean_list\<close> always returns (no removal fails), and in the state it leaves,
  for the package, cask and store-app domains, no entry of the input of a member of
  \<^verbatim>\<open>brewinfo_ext\<close> (a document other than the main one) is in the corresponding list
  of the main document; for casks this holds for \<^verbatim>\<open>cask_list\<close> and for
  \<^verbatim>\<open>cask_nocask_list\<close>. A package declared in the root and in a satellite file is
  written to the satellite only.
\<close>

theorem clean_list_dedup:
  "\<exists>s'. clean_list s = Return s'
      \<and> (\<forall>b \<in> set (brewinfo_ext s').
            (\<forall>p \<in> set (brew_input b). p \<notin> set (brew_list (brewinfo_main s')))
          \<and> (\<forall>p \<in> set (cask_input b). p \<notin> set (cask_list (brewinfo_main s'))
                                       \<and> p \<notin> set (cask_nocask_list (brewinfo_main s')))
          \<and> (\<forall>p \<in> set (appstore_input b). p \<notin> set (appstore_list (brewinfo_main s'))))"
proof -
  obtain s1 where s1: "clean_all_inputs s = Return s1" using clean_all_inputs_returns by blast
  let ?s2 = "list_to_main s1"
  let ?s3 = "update_main
               (\<lambda>m. m\<lparr>brew_list := filter (\<lambda>p. p \<notin> set (get_only_ext brew_input ?s2))
                                      (brew_list (brewinfo_main ?s2)),
                       cask_list := filter (\<lambda>p. p \<notin> set (get_only_ext cask_input ?s2))
                                      (cask_list (brewinfo_main ?s2)),
                       cask_nocask_list := filter (\<lambda>p. p \<notin> set (get_only_ext cask_input ?s2))
                                      (cask_nocask_list (brewinfo_main ?s2)),
                       appstore_list := filter (\<lambda>p. p \<notin> set (get_only_ext appstore_input ?s2))
                                      (appstore_list (brewinfo_main ?s2))\<rparr>) ?s2"
  let ?s' = "update_ext input_to_list
                        (update_main
                           (\<lambda>m. m\<lparr>main_list := add_list (main_list m) (main_input m),
                                   file_list := add_list (file_list m) (file_input m)\<rparr>)
                           ?s3)"
  have r: "clean_list s = Return ?s'" by (simp add: clean_list_def s1 dedup_main_eq)
  have e: "brewinfo_ext ?s' = map input_to_list (brewinfo_ext ?s2)"
    by (simp add: brewinfo_ext_update_ext brewinfo_ext_update_main)
  have m: "brew_list (brewinfo_main ?s') = filter (\<lambda>p. p \<notin> set (get_only_ext brew_input ?s2))
                                      (brew_list (brewinfo_main ?s2))"
    "cask_list (brewinfo_main ?s') = filter (\<lambda>p. p \<notin> set (get_only_ext cask_input ?s2))
                                      (cask_list (brewinfo_main ?s2))"
    "cask_nocask_list (brewinfo_main ?s') = filter (\<lambda>p. p \<notin> set (get_only_ext cask_input ?s2))
                                      (cask_nocask_list (brewinfo_main ?s2))"
    "appstore_list (brewinfo_main ?s') = filter (\<lambda>p. p \<notin> set (get_only_ext appstore_input ?s2))
                                      (appstore_list (brewinfo_main ?s2))"
    by (simp_all add: brewinfo_main_update_ext brewinfo_main_update_main)
  have "\<forall>b \<in> set (brewinfo_ext ?s').
            (\<forall>p \<in> set (brew_input b). p \<notin> set (brew_list (brewinfo_main ?s')))
          \<and> (\<forall>p \<in> set (cask_input b). p \<notin> set (cask_list (brewinfo_main ?s'))
                                       \<and> p \<notin> set (cask_nocask_list (brewinfo_main ?s')))
          \<and> (\<forall>p \<in> set (appstore_input b). p \<notin> set (appstore_list (brewinfo_main ?s')))"
    unfolding e m
    by (auto simp add: get_only_ext_def input_to_list_def)
  with r show ?thesis by blast
qed


lemma sat_eval:
  "(case clean_list root_with_satellite of
      Return s' \<Rightarrow> (brew_list (brewinfo_main s'), map brew_input (brewinfo_ext s'),
                     map brew_list (brewinfo_ext s'))
    | Raise e \<Rightarrow> ([], [], []) | SysExit n \<Rightarrow> ([], [], []))
   = ([''y''], [[''x'']], [[''x'']])"
  by code_simp

theorem clean_list_dedup_witness:
  "\<exists>s'. clean_list root_with_satellite = Return s'
      \<and> map brew_input (brewinfo_ext s') = [[''x'']]
      \<and> map brew_list (brewinfo_ext s') = [[''x'']]
      \<and> brew_list (brewinfo_main s') = [''y'']
      \<and> (\<forall>b \<in> set (brewinfo_ext s'). \<forall>p \<in> set (brew_input b).
             p \<notin> set (brew_list (brewinfo_main s')))"
proof -
  from clean_list_dedup [of root_with_satellite] obtain s' where
    r: "clean_list root_with_satellite = Return s'"
    and d: "\<forall>b \<in> set (brewinfo_ext s'). \<forall>p \<in> set (brew_input b).
             p \<notin> set (brew_list (brewinfo_main s'))"
    by blast
  from sat_eval r have v: "brew_list (brewinfo_main s') = [''y'']"
    "map brew_input (brewinfo_ext s') = [[''x'']]" "map brew_list (brewinfo_ext s') = [[''x'']]"
    by simp_all
  show ?thesis
  proof (intro exI conjI)
    show "clean_list root_with_satellite = Return s'" by (rule r)
    show "map brew_input (brewinfo_ext s') = [[''x'']]" by (rule v)
    show "map brew_list (brewinfo_ext s') = [[''x'']]" by (rule v)
    show "brew_list (brewinfo_main s') = [''y'']" by (rule v)
    show "\<forall>b \<in> set (brewinfo_ext s'). \<forall>p \<in> set (brew_input b).
             p \<notin> set (brew_list (brewinfo_main s'))" by (rule d)
  qed
qed

section \<open>Properties of read\<close>

lemma for_each_append:
  "for_each body (xs @ ys) s =
     (case for_each body xs s of
        (Return u, s') \<Rightarrow> for_each body ys s'
      | (Raise e, s') \<Rightarrow> (Raise e, s')
      | (SysExit n, s') \<Rightarrow> (SysExit n, s'))"
  by (induction xs arbitrary: s) (auto split: prod.splits outcome.splits)

lemma for_each_invariant:
  assumes "\<And>x s. P s \<Longrightarrow> P (snd (body x s))" and "P s"
  shows "P (snd (for_each body xs s))"
  using assms(2)
proof (induction xs arbitrary: s)
  case Nil
  then show ?case by simp
next
  case (Cons x xs)
  from assms(1) [OF Cons.prems, of x] have p: "P (snd (body x s))" .
  obtain r s1 where b: "body x s = (r, s1)" by (cases "body x s")
  with p have "P s1" by simp
  with Cons.IH [of s1] b show ?case by (cases r) simp_all
qed

lemma read_line_ignored:
  "is_ignore s \<Longrightarrow> \<not> is_endignore l \<Longrightarrow> read_line E w l s = (Return (), s)"
  by (cases s) (simp add: read_line_def Let_def)

lemma read_line_mark:
  "is_ignore_mark l \<Longrightarrow> read_line E w l s = (Return (), s\<lparr>is_ignore := True\<rparr>)"
  by (simp add: read_line_def Let_def)

lemma for_each_ignored:
  "is_ignore s \<Longrightarrow> \<forall>l \<in> set block. \<not> is_endignore l \<Longrightarrow>
     for_each (read_line E w) block s = (Return (), s)"
  by (induction block) (simp_all add: read_line_ignored)

lemma ignore_block:
  assumes "is_ignore_mark mark" and "\<forall>l \<in> set block. \<not> is_endignore l"
  shows "for_each (read_line E w) (mark # block) s = (Return (), s\<lparr>is_ignore := True\<rparr>)"
  using assms by (simp add: read_line_mark for_each_ignored)

text \<open>
  Claim C9. Let \<open>mark\<close> be a line that matches the ignore-begin pattern and \<open>block\<close>
  lines none of which matches the ignore-end pattern. Reading \<open>mark\<close> and then
  \<open>block\<close> returns normally and changes nothing but the ignore flag: no entry of any
  domain, no change of format, no error. So a file with the block reads exactly as the
  file without it, whatever comes before and after.
\<close>

theorem ignore_block_skipped:
  assumes "is_ignore_mark mark" and "\<forall>l \<in> set block. \<not> is_endignore l"
  shows "for_each (read_line E w) (mark # block) s = (Return (), s\<lparr>is_ignore := True\<rparr>)
       \<and> read E w (Some (pre @ mark # block @ rest)) b f = read E w (Some (pre @ mark # rest)) b f"
proof -
  have 1: "for_each (read_line E w) (mark # block @ rest) s
             = for_each (read_line E w) (mark # rest) s" for s
    using for_each_append [of "read_line E w" "mark # block" rest s]
      ignore_block [OF assms, of E w s] assms(1)
    by (simp add: read_line_mark)
  have "for_each (read_line E w) (pre @ mark # block @ rest) s
             = for_each (read_line E w) (pre @ mark # rest) s" for s
    by (simp only: for_each_append [of _ pre] 1)
  then show ?thesis using ignore_block [OF assms] by (simp add: read_def)
qed

theorem ignore_block_skipped_witness:
  "is_ignore_mark (''#BREWFILE_IGNORE'' @ nl)
   \<and> \<not> is_endignore (''brew vim'' @ nl)
   \<and> read quiet_env () (Some ([] @ (''#BREWFILE_IGNORE'' @ nl) # [''brew vim'' @ nl]
                                  @ [''#BREWFILE_ENDIGNORE'' @ nl, ''brew git'' @ nl]))
         (BrewInfo ''Brewfile'') ''none''
       = read quiet_env () (Some ([] @ (''#BREWFILE_IGNORE'' @ nl)
                                    # [''#BREWFILE_ENDIGNORE'' @ nl, ''brew git'' @ nl]))
           (BrewInfo ''Brewfile'') ''none''
   \<and> brew_input (doc (snd (read quiet_env () (Some ignore_text) (BrewInfo ''Brewfile'') ''none'')))
       = [''git'']"
proof -
  have m: "is_ignore_mark (''#BREWFILE_IGNORE'' @ nl)" by code_simp
  have b0: "\<not> is_endignore (''brew vim'' @ nl)" by code_simp
  then have b: "\<forall>l \<in> set [''brew vim'' @ nl]. \<not> is_endignore l" by simp
  have e: "brew_input (doc (snd (read quiet_env () (Some ignore_text) (BrewInfo ''Brewfile'') ''none'')))
       = [''git'']" by code_simp
  from ignore_block_skipped [OF m b, of quiet_env "()" _ "[]"
      "[''#BREWFILE_ENDIGNORE'' @ nl, ''brew git'' @ nl]" "BrewInfo ''Brewfile''" "''none''"]
  have "read quiet_env () (Some ([] @ (''#BREWFILE_IGNORE'' @ nl) # [''brew vim'' @ nl]
                                  @ [''#BREWFILE_ENDIGNORE'' @ nl, ''brew git'' @ nl]))
         (BrewInfo ''Brewfile'') ''none''
       = read quiet_env () (Some ([] @ (''#BREWFILE_IGNORE'' @ nl)
                                    # [''#BREWFILE_ENDIGNORE'' @ nl, ''brew git'' @ nl]))
           (BrewInfo ''Brewfile'') ''none''"
    by (rule conjunct2)
  with m b0 e show ?thesis by (intro conjI)
qed

lemma tap_input_foldl: "tap_input (foldl (\<lambda>d tp. add_pack tp [] d) b xs) = tap_input b"
  by (induction xs arbitrary: b) (simp_all add: add_pack_def)

lemma tap_input_add_pack: "tap_input (add_pack p opt b) = tap_input b"
  by (simp add: add_pack_def)

lemma dispatch_tap_grows:
  "\<exists>ys. tap_input (doc (snd (dispatch E w line cmd p opt s))) = tap_input (doc s) @ ys"
  by (simp add: dispatch_def Let_def detect_def tap_input_add_pack tap_input_foldl
      split: list.splits)

lemma parse_line_tap_grows:
  "\<exists>ys. tap_input (doc (snd (parse_line E w line s))) = tap_input (doc s) @ ys"
proof (cases "line_args line")
  case Nil
  then show ?thesis by (simp add: parse_line_def)
next
  case (Cons a as)
  let ?args = "norm_args (a # as)"
  let ?s1 = "(if norm_fired (a # as) then detect ''cmd'' s else s)"
  let ?s2 = "(if has_args_word ?args then detect ''bundle'' ?s1 else ?s1)"
  let ?s3 = "(if (hd ?args = ''brew'' \<or> hd ?args = ''tap'' \<or> hd ?args = ''tapall'')
                        \<and> (CHR 0x22 \<in> set line \<or> CHR 0x27 \<in> set line)
                     then detect ''bundle'' ?s2 else ?s2)"
  have d: "doc ?s3 = doc s" by (simp add: detect_def)
  have "parse_line E w line s = dispatch E w line (hd ?args)
           (case tl ?args of [] \<Rightarrow> [] | x # xs \<Rightarrow> x) (line_opt ?args) ?s3"
    using Cons by (simp add: parse_line_def Let_def)
  with dispatch_tap_grows [of E w line "hd ?args" _ "line_opt ?args" ?s3] d
  show ?thesis by simp
qed

lemma read_line_tap_grows:
  "\<exists>ys. tap_input (doc (snd (read_line E w line s))) = tap_input (doc s) @ ys"
  using parse_line_tap_grows [of E w line s]
    parse_line_tap_grows [of E w line "s\<lparr>is_ignore := False\<rparr>"]
  by (simp add: read_line_def Let_def)

lemma read_line_keeps_direct:
  "\<exists>rest. tap_input (doc s) = ''direct'' # rest \<Longrightarrow>
     \<exists>rest. tap_input (doc (snd (read_line E w line s))) = ''direct'' # rest"
  using read_line_tap_grows [of E w line s] by auto

text \<open>
  Claim C10. After a \<^verbatim>\<open>read\<close> of a file that could be opened, whatever its lines and
  whether or not the loop raised, the tap input starts with \<^verbatim>\<open>direct\<close>; for an empty
  file it is \<^verbatim>\<open>direct\<close> alone and the other inputs are empty. For a file that cannot
  be opened \<^verbatim>\<open>read\<close> returns with every input empty.
\<close>

theorem read_direct_tap:
  "(\<exists>rest. tap_input (doc (snd (read E w (Some lines) b f))) = ''direct'' # rest)
   \<and> read E w (Some []) b f
       = (Return (), \<lparr>doc = (clear_input b)\<lparr>tap_input := [''direct'']\<rparr>, form = f, is_ignore = False\<rparr>)
   \<and> read E w None b f = (Return (), \<lparr>doc = clear_input b, form = f, is_ignore = False\<rparr>)
   \<and> tap_input (clear_input b) = [] \<and> brew_input (clear_input b) = []
   \<and> cask_input (clear_input b) = [] \<and> appstore_input (clear_input b) = []
   \<and> main_input (clear_input b) = [] \<and> file_input (clear_input b) = []
   \<and> before_input (clear_input b) = [] \<and> after_input (clear_input b) = []
   \<and> cmd_input (clear_input b) = [] \<and> brew_input_opt (clear_input b) = Map.empty"
proof -
  let ?s0 = "\<lparr>doc = (clear_input b)\<lparr>tap_input := [''direct'']\<rparr>, form = f, is_ignore = False\<rparr>"
  have "\<exists>rest. tap_input (doc ?s0) = ''direct'' # rest" by simp
  from for_each_invariant [of "\<lambda>s. \<exists>rest. tap_input (doc s) = ''direct'' # rest" "read_line E w",
      OF read_line_keeps_direct this]
  have "\<exists>rest. tap_input (doc (snd (read E w (Some lines) b f))) = ''direct'' # rest"
    by (simp add: read_def)
  then show ?thesis by (simp add: read_def clear_input_def)
qed

section \<open>Properties of write and of the raw commands\<close>
















text \<open>
  Lines on which \<^verbatim>\<open>read\<close> raises an \<^verbatim>\<open>IndexError\<close>: a line of a comma, a line of
  a tab, and the comma form of \<^verbatim>\<open>mas\<close> with fewer than four words.
\<close>

lemma read_comma_line_raises:
  "fst (read_text quiet_env () ('','' @ nl) ''none'') = Raise IndexError"
  "fst (read_text quiet_env () ([CHR 0x09] @ nl) ''none'') = Raise IndexError"
  "fst (read_text quiet_env () (''mas a,b'' @ nl) ''none'') = Raise IndexError"
  by code_simp+

section \<open>Properties of cleanup\<close>










lemma banner_no_removal: "\<not> removes_tap R (Banner b)" "\<not> removes_pack P (Banner b)"
  by (simp_all add: removes_tap_def removes_pack_def)
















end
